theory Spec2Isabelle
  imports Complex_Main
begin

section \<open>Data model\<close>

text \<open>
  The ride lifecycle controller of the driver application exists in two variants: the
  provider with realtime subscriptions, decline markers and fare computation
  (\<^verbatim>\<open>src/unnamed/part_002\<close>), whose functions keep their source names here, and the
  polling-only provider (\<^verbatim>\<open>src/unnamed/part_001\<close>), whose functions carry the suffix
  \<open>_p1\<close>. Both talk to the hosted store through its query builder.

  A JavaScript number is the rational it denotes. The arithmetic of the fare computation
  rounds every result to binary64, as the language does; the draw and the arithmetic of
  the one-time code are exact. Columns that are only displayed
  (addresses, the joined customer, \<^verbatim>\<open>updated_at\<close>) are left out of the rows. A string that
  the source tests only for truthiness stands for \<^verbatim>\<open>null\<close>/\<^verbatim>\<open>undefined\<close> when it is empty.
\<close>

datatype ride_status = requested | accepted | driver_arrived | in_progress | completed | cancelled

datatype booking_type = regular | rental | outstation | airport

datatype driver_status = offline | online | busy

datatype notification_type = ride_request | ride_declined | other_notification

datatype notification_status = unread | read | notification_cancelled

type_synonym location = "rat \<times> rat"

record ride =
  ride_id :: string
  status :: ride_status
  driver_id :: "string option"
  pickup_otp :: "string option"
  drop_otp :: "string option"
  booking_type :: booking_type
  vehicle_type :: string
  rental_hours :: "rat option"
  fare_amount :: "rat option"
  distance_km :: "rat option"
  duration_minutes :: "rat option"
  payment_status :: "string option"
  cancellation_reason :: "string option"
  cancelled_by :: "string option"
  created_at :: int

record notification =
  n_user_id :: string
  n_type :: notification_type
  n_status :: notification_status
  n_ride_id :: string
  n_rideId :: string
  n_created_at :: int

record fare_row =
  f_booking_type :: booking_type
  f_vehicle_type :: string
  f_is_active :: bool
  base_fare :: rat
  per_km_rate :: rat
  per_minute_rate :: "rat option"
  platform_fee_percent :: rat
  minimum_fare :: rat
  hourly_rate :: "rat option"

record driver_row =
  dr_user_id :: string
  dr_vehicle_id :: string
  dr_status :: driver_status
  dr_total_rides :: nat

record user_info =
  full_name :: string
  phone_number :: string

record vehicle_info =
  v_make :: string
  v_model :: string
  v_registration_number :: string

text \<open>The \<^verbatim>\<open>driver\<close> object handed out by the authentication context.\<close>

record auth_driver =
  d_id :: string
  d_user_id :: string
  d_vehicle_id :: string
  d_status :: driver_status
  d_is_verified :: bool
  d_total_rides :: nat
  d_user :: "user_info option"
  d_vehicle :: "vehicle_info option"

text \<open>
  What the next call of the store does, decided by the environment: it answers, it
  resolves with an \<^verbatim>\<open>error\<close> object carrying a code, or the awaited promise rejects.
\<close>

datatype fault = NoFault | Fail string | Crash

text \<open>
  The state a controller operation runs in: the tables of the store, the environment
  (pending faults, configuration, the device location, the authenticated driver) and the
  React state of the provider.
\<close>

record scheduled_booking =
  sb_id :: string
  sb_assigned_driver_id :: "string option"
  sb_status :: string
  sb_scheduled_time :: int

record world =
  rides :: "ride list"
  scheduled_bookings :: "scheduled_booking list"
  drivers :: "string \<rightharpoonup> driver_row"
  notifications :: "notification list"
  fare_matrix :: "fare_row list"
  live_locations :: "string \<rightharpoonup> location"
  faults :: "fault list"
  env_url :: bool
  currentLocation :: "location option"
  driver :: "auth_driver option"
  authLoading :: bool
  currentRide :: "ride option"
  assignedScheduledBooking :: "scheduled_booking option"
  pendingRides :: "ride list"
  error :: "string option"
  rideLoading :: bool
  lastNotificationCheck :: int
  tripStartTime :: "int option"
  tripStartLocation :: "location option"
  totalDistanceTraveled :: rat
  lastKnownLocation :: "location option"

section \<open>Asynchronous functions with exceptions\<close>

text \<open>
  An \<^verbatim>\<open>async\<close> function is a state transformer that either returns a value or throws.
  \<open>await\<close> sequences two of them and lets an exception pass; \<open>try_catch\<close> and
  \<open>try_finally\<close> are the statements of the same name.
\<close>

datatype 'a outcome = Returned 'a | Raised

type_synonym 'a action = "world \<Rightarrow> 'a outcome \<times> world"

definition ret :: "'a \<Rightarrow> 'a action" where
  "ret x w = (Returned x, w)"

definition throw :: "'a action" where
  "throw w = (Raised, w)"

definition await :: "'a action \<Rightarrow> ('a \<Rightarrow> 'b action) \<Rightarrow> 'b action" where
  "await m f w = (case m w of (Returned x, w') \<Rightarrow> f x w' | (Raised, w') \<Rightarrow> (Raised, w'))"

definition try_catch :: "'a action \<Rightarrow> 'a action \<Rightarrow> 'a action" where
  "try_catch m h w = (case m w of (Raised, w') \<Rightarrow> h w' | (Returned x, w') \<Rightarrow> (Returned x, w'))"

definition try_finally :: "'a action \<Rightarrow> (world \<Rightarrow> world) \<Rightarrow> 'a action" where
  "try_finally m fin w = (case m w of (r, w') \<Rightarrow> (r, fin w'))"

text \<open>A state setter of the provider followed by the rest of the function.\<close>

definition setting :: "(world \<Rightarrow> world) \<Rightarrow> 'a action \<Rightarrow> 'a action" where
  "setting f m w = m (f w)"

text \<open>Reading the current state (a closure variable, a field of the manager).\<close>

definition reading :: "(world \<Rightarrow> 'b) \<Rightarrow> ('b \<Rightarrow> 'a action) \<Rightarrow> 'a action" where
  "reading g f w = f (g w) w"

text \<open>The state setters of the provider.\<close>

definition setError :: "string \<Rightarrow> world \<Rightarrow> world" where
  "setError msg w = w\<lparr>error := Some msg\<rparr>"

definition setRideLoading :: "bool \<Rightarrow> world \<Rightarrow> world" where
  "setRideLoading b w = w\<lparr>rideLoading := b\<rparr>"

definition setCurrentRide :: "ride option \<Rightarrow> world \<Rightarrow> world" where
  "setCurrentRide r w = w\<lparr>currentRide := r\<rparr>"

definition setPendingRides :: "ride list \<Rightarrow> world \<Rightarrow> world" where
  "setPendingRides rs w = w\<lparr>pendingRides := rs\<rparr>"

lemmas setter_defs = setError_def setRideLoading_def setCurrentRide_def setPendingRides_def

lemmas action_defs =
  ret_def throw_def await_def try_catch_def try_finally_def setting_def reading_def

section \<open>The store\<close>

text \<open>
  The query builder of the hosted store is outside the repository. A query is a function
  on the tables that yields \<^verbatim>\<open>{data, error}\<close>; \<open>store_call\<close> runs it under the next
  pending fault. A call that fails or throws leaves the tables as they were.
\<close>

datatype 'a reply = Reply 'a | Failed string

definition next_fault :: "world \<Rightarrow> fault" where
  "next_fault w = (case faults w of [] \<Rightarrow> NoFault | f # _ \<Rightarrow> f)"

definition store_call :: "(world \<Rightarrow> 'a reply \<times> world) \<Rightarrow> 'a reply action" where
  "store_call q w =
     (let w1 = w\<lparr>faults := tl (faults w)\<rparr>
      in case next_fault w of
           NoFault \<Rightarrow> (case q w1 of (r, w') \<Rightarrow> (Returned r, w'))
         | Fail c \<Rightarrow> (Returned (Failed c), w1)
         | Crash \<Rightarrow> (Raised, w1))"

text \<open>
  \<^verbatim>\<open>.update(..).eq(..).select().single()\<close>: the conditional update. It writes the rows
  that satisfy the filter and answers with the written row when there is exactly one;
  otherwise the answer is the error \<^verbatim>\<open>PGRST116\<close> and nothing is written.
\<close>

definition update_single :: "('r \<Rightarrow> bool) \<Rightarrow> ('r \<Rightarrow> 'r) \<Rightarrow> 'r list \<Rightarrow> 'r reply \<times> 'r list" where
  "update_single P upd tbl =
     (case filter P tbl of
        [r] \<Rightarrow> (Reply (upd r), map (\<lambda>x. if P x then upd x else x) tbl)
      | _ \<Rightarrow> (Failed ''PGRST116'', tbl))"

text \<open>\<^verbatim>\<open>.update(..).eq(..)\<close> without a selection: no error when no row matches.\<close>

definition update_where :: "('r \<Rightarrow> bool) \<Rightarrow> ('r \<Rightarrow> 'r) \<Rightarrow> 'r list \<Rightarrow> 'r list" where
  "update_where P upd tbl = map (\<lambda>x. if P x then upd x else x) tbl"

text \<open>\<^verbatim>\<open>.select(..).eq(..).single()\<close>\<close>

definition select_single :: "('r \<Rightarrow> bool) \<Rightarrow> 'r list \<Rightarrow> 'r reply" where
  "select_single P tbl = (case filter P tbl of [r] \<Rightarrow> Reply r | _ \<Rightarrow> Failed ''PGRST116'')"

definition update_ride_single :: "(ride \<Rightarrow> bool) \<Rightarrow> (ride \<Rightarrow> ride) \<Rightarrow> ride reply action" where
  "update_ride_single P upd =
     store_call (\<lambda>w. case update_single P upd (rides w) of (r, tbl) \<Rightarrow> (r, w\<lparr>rides := tbl\<rparr>))"

definition update_ride :: "(ride \<Rightarrow> bool) \<Rightarrow> (ride \<Rightarrow> ride) \<Rightarrow> unit reply action" where
  "update_ride P upd =
     store_call (\<lambda>w. (Reply (), w\<lparr>rides := update_where P upd (rides w)\<rparr>))"

definition select_ride_single :: "(ride \<Rightarrow> bool) \<Rightarrow> ride reply action" where
  "select_ride_single P = store_call (\<lambda>w. (select_single P (rides w), w))"


section \<open>One-time codes\<close>














section \<open>Pickup verification\<close>

text \<open>The row written when the trip starts: \<^verbatim>\<open>{status: 'in_progress', pickup_otp: null}\<close>.\<close>

definition start_trip :: "ride \<Rightarrow> ride" where
  "start_trip x = x\<lparr>status := in_progress, pickup_otp := None\<rparr>"

text \<open>
  \<open>verifyPickupOTP\<close> of the realtime provider reads the stored code, compares it with
  \<^verbatim>\<open>!==\<close> and then writes by \<^verbatim>\<open>id\<close> alone; \<open>startTime\<close> is the clock at the call.
\<close>

definition verifyPickupOTP :: "int \<Rightarrow> string \<Rightarrow> string \<Rightarrow> bool action" where
  "verifyPickupOTP startTime rideId otp =
     try_finally
       (try_catch
          (setting (setRideLoading True)
             (await (select_ride_single (\<lambda>x. ride_id x = rideId))
                (\<lambda>fetched. case fetched of
                     Failed _ \<Rightarrow> setting (setError ''Failed to verify OTP'') (ret False)
                   | Reply ride \<Rightarrow>
                       if pickup_otp ride \<noteq> Some otp
                       then setting (setError ''Incorrect OTP'') (ret False)
                       else await (update_ride_single (\<lambda>x. ride_id x = rideId) start_trip)
                              (\<lambda>updated. case updated of
                                   Failed _ \<Rightarrow> setting (setError ''Failed to start ride'') (ret False)
                                 | Reply updatedRide \<Rightarrow>
                                     setting
                                       (\<lambda>w. setCurrentRide (Some updatedRide)
                                              (w\<lparr>tripStartTime := Some startTime,
                                                 tripStartLocation := currentLocation w,
                                                 totalDistanceTraveled := 0,
                                                 lastKnownLocation := currentLocation w\<rparr>))
                                       (ret True)))))
          (setting (setError ''Failed to verify OTP'') (ret False)))
       (setRideLoading False)"

text \<open>The polling provider verifies with one conditional update on \<^verbatim>\<open>id\<close> and \<^verbatim>\<open>pickup_otp\<close>.\<close>

definition verifyPickupOTP_p1 :: "string \<Rightarrow> string \<Rightarrow> bool action" where
  "verifyPickupOTP_p1 rideId otp =
     try_finally
       (try_catch
          (setting (setRideLoading True)
             (await (update_ride_single (\<lambda>x. ride_id x = rideId \<and> pickup_otp x = Some otp) start_trip)
                (\<lambda>updated. case updated of
                     Failed _ \<Rightarrow> setting (setError ''Invalid OTP'') (ret False)
                   | Reply updatedRide \<Rightarrow> setting (setCurrentRide (Some updatedRide)) (ret True))))
          (setting (setError ''Failed to verify OTP'') (ret False)))
       (setRideLoading False)"

section \<open>Declining an offer\<close>

definition driver_user_id :: "world \<Rightarrow> string" where
  "driver_user_id w = (case driver w of None \<Rightarrow> [] | Some d \<Rightarrow> d_user_id d)"

definition driver_ident :: "world \<Rightarrow> string" where
  "driver_ident w = (case driver w of None \<Rightarrow> [] | Some d \<Rightarrow> d_id d)"

text \<open>\<^verbatim>\<open>.eq('user_id', ..).eq('type', 'ride_request').contains('data', {ride_id: rideId})\<close>\<close>

definition request_for :: "string \<Rightarrow> string \<Rightarrow> notification \<Rightarrow> bool" where
  "request_for uid rideId n = (n_user_id n = uid \<and> n_type n = ride_request \<and> n_ride_id n = rideId)"

definition update_notifications ::
    "(notification \<Rightarrow> bool) \<Rightarrow> (notification \<Rightarrow> notification) \<Rightarrow> unit reply action" where
  "update_notifications P upd =
     store_call (\<lambda>w. (Reply (), w\<lparr>notifications := update_where P upd (notifications w)\<rparr>))"

definition insert_notification :: "notification \<Rightarrow> unit reply action" where
  "insert_notification n = store_call (\<lambda>w. (Reply (), w\<lparr>notifications := notifications w @ [n]\<rparr>))"

text \<open>The decline record: a notification of type \<^verbatim>\<open>ride_declined\<close> carrying the ride.\<close>

definition decline_marker :: "int \<Rightarrow> string \<Rightarrow> string \<Rightarrow> notification" where
  "decline_marker now uid rideId =
     \<lparr>n_user_id = uid, n_type = ride_declined, n_status = read, n_ride_id = rideId,
      n_rideId = [], n_created_at = now\<rparr>"

text \<open>
  \<open>declineRide\<close> of the realtime provider. Both answers of the store are bound to
  \<^verbatim>\<open>notificationError\<close> and \<^verbatim>\<open>declineError\<close>, which are only logged.
\<close>

definition declineRide :: "int \<Rightarrow> string \<Rightarrow> bool action" where
  "declineRide now rideId =
     reading driver_user_id
       (\<lambda>uid. if uid = [] then setting (setError ''Driver not available'') (ret False)
               else
                 try_catch
                   (await (update_notifications (request_for uid rideId)
                             (\<lambda>n. n\<lparr>n_status := notification_cancelled\<rparr>))
                      (\<lambda>notificationError.
                         await (insert_notification (decline_marker now uid rideId))
                           (\<lambda>declineError.
                              setting (\<lambda>w. setPendingRides
                                              (filter (\<lambda>ride. ride_id ride \<noteq> rideId) (pendingRides w)) w)
                                (ret True))))
                   (setting (setError ''Failed to decline ride'') (ret False)))"

definition declineRide_p1 :: "string \<Rightarrow> bool action" where
  "declineRide_p1 rideId =
     try_catch
       (setting (\<lambda>w. setPendingRides (filter (\<lambda>r. ride_id r \<noteq> rideId) (pendingRides w)) w)
          (reading driver_user_id
             (\<lambda>uid. if uid \<noteq> []
                     then await (update_notifications (request_for uid rideId)
                                   (\<lambda>n. n\<lparr>n_status := read\<rparr>))
                            (\<lambda>_. ret True)
                     else ret True)))
       (ret False)"

section \<open>Numbers\<close>

text \<open>
  The arithmetic of JavaScript numbers: every operation yields the binary64 value nearest
  to the exact result, with ties going to the even significand. \<open>binade\<close> is the exponent
  \<open>e\<close> with \<open>2\<^sup>e \<le> x < 2\<^sup>e\<^sup>+\<^sup>1\<close>, and a value of that binade has 53 significant bits, so
  that its unit in the last place is \<open>2\<^sup>e\<^sup>-\<^sup>5\<^sup>2\<close>. The exponent range is not bounded here:
  an overflow to \<^verbatim>\<open>Infinity\<close>, the subnormal numbers and \<^verbatim>\<open>NaN\<close> are outside the model.
\<close>

fun blen :: "nat \<Rightarrow> nat" where
  "blen n = (if n = 0 then 0 else Suc (blen (n div 2)))"

declare blen.simps [simp del]

definition binade :: "rat \<Rightarrow> int" where
  "binade x =
     (if 1 \<le> x then int (blen (nat \<lfloor>x\<rfloor>)) - 1
      else - int (blen (nat \<lceil>1 / x\<rceil> - 1)))"

definition round_half_even :: "rat \<Rightarrow> int" where
  "round_half_even q =
     (let f = \<lfloor>q\<rfloor>; r = q - of_int f
      in if r < 1/2 then f else if 1/2 < r then f + 1 else if even f then f else f + 1)"

definition dbl :: "rat \<Rightarrow> rat" where
  "dbl x =
     (if x = 0 then 0
      else let u = 2 powi (binade \<bar>x\<bar> - 52)
           in sgn x * of_int (round_half_even (\<bar>x\<bar> / u)) * u)"

text \<open>The operators \<^verbatim>\<open>+\<close>, \<^verbatim>\<open>-\<close>, \<^verbatim>\<open>*\<close> and \<^verbatim>\<open>/\<close> on numbers.\<close>

definition fadd :: "rat \<Rightarrow> rat \<Rightarrow> rat" where
  "fadd a b = dbl (a + b)"

definition fsub :: "rat \<Rightarrow> rat \<Rightarrow> rat" where
  "fsub a b = dbl (a - b)"

definition fmul :: "rat \<Rightarrow> rat \<Rightarrow> rat" where
  "fmul a b = dbl (a * b)"

definition fdiv :: "rat \<Rightarrow> rat \<Rightarrow> rat" where
  "fdiv a b = dbl (a / b)"

lemmas float_defs = fadd_def fsub_def fmul_def fdiv_def

section \<open>Fares\<close>

text \<open>\<^verbatim>\<open>x || d\<close> on a nullable number: \<^verbatim>\<open>null\<close> and \<^verbatim>\<open>0\<close> are falsy.\<close>

definition or_default :: "rat option \<Rightarrow> rat \<Rightarrow> rat" where
  "or_default x d = (case x of None \<Rightarrow> d | Some v \<Rightarrow> if v = 0 then d else v)"

text \<open>\<^verbatim>\<open>Math.round\<close> rounds halves up.\<close>

definition js_round :: "rat \<Rightarrow> int" where
  "js_round x = \<lfloor>x + 1/2\<rfloor>"

text \<open>An object literal of numbers, such as \<^verbatim>\<open>fareBreakdown\<close>: its properties in order.\<close>

type_synonym breakdown = "(string \<times> rat) list"

text \<open>
  The fare block of \<open>completeRide\<close> in the realtime provider: the rental branch, and the
  branch for every other booking type.
\<close>

definition ride_fare :: "ride \<Rightarrow> fare_row \<Rightarrow> rat \<Rightarrow> rat \<Rightarrow> rat \<times> breakdown" where
  "ride_fare rideData fareMatrix distance duration =
     (if booking_type rideData = rental then
        (let rentalHours = or_default (rental_hours rideData) 4;
             hourlyRate = or_default (hourly_rate fareMatrix) 150;
             hourlyFare = fmul rentalHours hourlyRate;
             total = fadd (fadd (base_fare fareMatrix) hourlyFare)
                       (fdiv (fmul hourlyFare (platform_fee_percent fareMatrix)) 100)
         in (total,
             [(''base_fare'', base_fare fareMatrix), (''hourly_rate'', hourlyRate),
              (''rental_hours'', rentalHours), (''hourly_fare'', hourlyFare),
              (''platform_fee'', fdiv (fmul hourlyFare (platform_fee_percent fareMatrix)) 100),
              (''total_fare'', total)]))
      else
        (let baseFare = base_fare fareMatrix;
             perKmRate = per_km_rate fareMatrix;
             perMinuteRate = or_default (per_minute_rate fareMatrix) 0;
             distanceFare = fmul distance perKmRate;
             timeFare = fmul duration perMinuteRate;
             subtotal = fadd (fadd baseFare distanceFare) timeFare;
             platformFee = fdiv (fmul subtotal (platform_fee_percent fareMatrix)) 100;
             calculatedTotal = fadd subtotal platformFee;
             totalFare = max calculatedTotal (minimum_fare fareMatrix)
         in (totalFare,
             [(''base_fare'', baseFare), (''distance_fare'', distanceFare),
              (''time_fare'', timeFare), (''platform_fee'', platformFee),
              (''minimum_fare'', minimum_fare fareMatrix), (''total_fare'', totalFare),
              (''per_km_rate'', perKmRate), (''per_minute_rate'', perMinuteRate)])))"

text \<open>
  A row of the fare tables read by \<open>handleCompleteTrip\<close> for scheduled bookings
  (\<^verbatim>\<open>rental_fares\<close>, \<^verbatim>\<open>outstation_fares\<close>, \<^verbatim>\<open>airport_fares\<close>): the columns the function reads.
\<close>

record scheduled_fare_row =
  sf_hourly_rate :: "rat option"
  sf_driver_allowance_per_day :: "rat option"
  sf_overtime_rate :: "rat option"
  sf_km_limit_per_hour :: "rat option"
  sf_extra_km_rate :: "rat option"
  sf_base_fare :: "rat option"
  sf_per_km_rate :: "rat option"
  sf_driver_allowance :: "rat option"
  sf_night_charge_percent :: "rat option"
  sf_airport_fee :: "rat option"
  sf_peak_hour_multiplier :: "rat option"

text \<open>
  The fare block of \<open>handleCompleteTrip\<close>, from the booking type and booked hours of the
  booking, the fare row, the minutes and kilometres of the trip and the hour of the day at
  completion.
\<close>

definition scheduled_fare ::
    "booking_type \<Rightarrow> rat option \<Rightarrow> scheduled_fare_row \<Rightarrow> rat \<Rightarrow> rat \<Rightarrow> nat \<Rightarrow> rat \<times> breakdown" where
  "scheduled_fare bookingType bookedHours fareMatrix actualDuration tripDistance hour =
     (if bookingType = rental then
        (let rentalHours = or_default bookedHours 4;
             hourlyRate = or_default (sf_hourly_rate fareMatrix) 150;
             hourlyFare = fmul rentalHours hourlyRate;
             driverAllowance = or_default (sf_driver_allowance_per_day fareMatrix) 0;
             actualHours = of_int \<lceil>fdiv actualDuration 60\<rceil>;
             overtimeHours = max 0 (fsub actualHours rentalHours);
             overtimeFare =
               fmul overtimeHours
                 (or_default (sf_overtime_rate fareMatrix) (fmul hourlyRate (dbl (12/10))));
             includedKm = fmul rentalHours (or_default (sf_km_limit_per_hour fareMatrix) 10);
             extraKm = max 0 (fsub tripDistance includedKm);
             extraKmFare = fmul extraKm (or_default (sf_extra_km_rate fareMatrix) 8);
             subtotal = fadd (fadd (fadd hourlyFare overtimeFare) extraKmFare) driverAllowance
         in (subtotal,
             [(''base_fare'', 0), (''hourly_rate'', hourlyRate), (''rental_hours'', rentalHours),
              (''hourly_fare'', hourlyFare), (''overtime_hours'', overtimeHours),
              (''overtime_fare'', overtimeFare), (''included_km'', includedKm),
              (''extra_km'', extraKm), (''extra_km_fare'', extraKmFare),
              (''driver_allowance'', driverAllowance), (''total_fare'', subtotal)]))
      else if bookingType = outstation then
        (let baseFare = or_default (sf_base_fare fareMatrix) 500;
             perKmRate = or_default (sf_per_km_rate fareMatrix) 14;
             driverAllowance = or_default (sf_driver_allowance fareMatrix) 300;
             distanceFare = fmul tripDistance perKmRate;
             isNightTime = (hour \<ge> 22 \<or> hour \<le> 6);
             nightChargePercent =
               (if isNightTime then or_default (sf_night_charge_percent fareMatrix) 20 else 0);
             nightCharge =
               (if isNightTime
                then fmul (fadd baseFare distanceFare) (fdiv nightChargePercent 100) else 0);
             totalFare = fadd (fadd (fadd baseFare distanceFare) driverAllowance) nightCharge
         in (totalFare,
             [(''base_fare'', baseFare), (''distance_fare'', distanceFare),
              (''driver_allowance'', driverAllowance), (''night_charge'', nightCharge),
              (''night_charge_percent'', nightChargePercent), (''total_fare'', totalFare),
              (''per_km_rate'', perKmRate)]))
      else if bookingType = airport then
        (let baseFare = or_default (sf_base_fare fareMatrix) 200;
             perKmRate = or_default (sf_per_km_rate fareMatrix) 16;
             airportFee = or_default (sf_airport_fee fareMatrix) 100;
             distanceFare = fmul tripDistance perKmRate;
             isPeakHour = ((hour \<ge> 6 \<and> hour \<le> 10) \<or> (hour \<ge> 18 \<and> hour \<le> 22));
             peakMultiplier =
               (if isPeakHour then or_default (sf_peak_hour_multiplier fareMatrix) (dbl (15/10))
                else 1);
             subtotal = fadd (fadd baseFare distanceFare) airportFee;
             totalFare = fmul subtotal peakMultiplier
         in (totalFare,
             [(''base_fare'', baseFare), (''distance_fare'', distanceFare),
              (''airport_fee'', airportFee), (''peak_multiplier'', peakMultiplier),
              (''peak_charge'', if isPeakHour then fmul subtotal (fsub peakMultiplier 1) else 0),
              (''total_fare'', totalFare), (''per_km_rate'', perKmRate)]))
      else (0, []))"

text \<open>
  The totals in the words of the specification, computed with the operators of the
  language: the overtime hours and extra kilometres it defines, the rental total and the
  regular total.
\<close>

definition spec_overtime_hours :: "rat \<Rightarrow> rat \<Rightarrow> rat" where
  "spec_overtime_hours actualMinutes bookedHours =
     max 0 (fsub (of_int \<lceil>fdiv actualMinutes 60\<rceil>) bookedHours)"

definition spec_extra_km :: "rat \<Rightarrow> rat \<Rightarrow> rat \<Rightarrow> rat" where
  "spec_extra_km actualDistance bookedHours kmLimitPerHour =
     max 0 (fsub actualDistance (fmul bookedHours kmLimitPerHour))"

definition spec_rental_total ::
    "rat \<Rightarrow> rat \<Rightarrow> rat \<Rightarrow> rat \<Rightarrow> rat \<Rightarrow> rat \<Rightarrow> rat \<Rightarrow> rat \<Rightarrow> rat \<Rightarrow> rat" where
  "spec_rental_total base hours hourlyRate actualMinutes overtimeRate actualDistance
       kmLimitPerHour extraKmRate driverAllowance =
     fadd (fadd (fadd (fadd base (fmul hours hourlyRate))
                   (fmul (spec_overtime_hours actualMinutes hours) overtimeRate))
             (fmul (spec_extra_km actualDistance hours kmLimitPerHour) extraKmRate))
       driverAllowance"

definition spec_subtotal :: "rat \<Rightarrow> rat \<Rightarrow> rat \<Rightarrow> rat \<Rightarrow> rat \<Rightarrow> rat" where
  "spec_subtotal base distance perKmRate duration perMinuteRate =
     fadd (fadd base (fmul distance perKmRate)) (fmul duration perMinuteRate)"

definition spec_regular_total :: "rat \<Rightarrow> rat \<Rightarrow> rat \<Rightarrow> rat" where
  "spec_regular_total subtotal platformFeePercent minimumFare =
     max (fmul subtotal (fadd 1 (fdiv platformFeePercent 100))) minimumFare"

section \<open>Completing a ride\<close>

record completion_data =
  cd_distance :: rat
  cd_duration :: rat
  cd_fareBreakdown :: breakdown
  cd_booking_type :: booking_type
  cd_rental_hours :: "rat option"

definition select_fare_single :: "(fare_row \<Rightarrow> bool) \<Rightarrow> fare_row reply action" where
  "select_fare_single P = store_call (\<lambda>w. (select_single P (fare_matrix w), w))"

text \<open>\<^verbatim>\<open>.from('drivers').update(..).eq('id', driverId)\<close>\<close>

definition update_driver :: "string \<Rightarrow> (driver_row \<Rightarrow> driver_row) \<Rightarrow> unit reply action" where
  "update_driver driverId upd =
     store_call (\<lambda>w. (Reply (),
       w\<lparr>drivers := (case drivers w driverId of
                        None \<Rightarrow> drivers w
                      | Some row \<Rightarrow> (drivers w)(driverId \<mapsto> upd row))\<rparr>))"

text \<open>
  Modelled from the spec: \<open>updateDriverStatusFromRide\<close> belongs to the authentication
  context, which is not under \<^verbatim>\<open>src/\<close>; it sets the availability of the driver object held
  by the application.
\<close>

definition updateDriverStatusFromRide :: "driver_status \<Rightarrow> world \<Rightarrow> world" where
  "updateDriverStatusFromRide st w = w\<lparr>driver := map_option (\<lambda>d. d\<lparr>d_status := st\<rparr>) (driver w)\<rparr>"

definition resetTripTracking :: "world \<Rightarrow> world" where
  "resetTripTracking w =
     w\<lparr>tripStartTime := None, tripStartLocation := None, totalDistanceTraveled := 0,
       lastKnownLocation := None\<rparr>"

text \<open>Minutes and kilometres of the trip as \<open>completeRide\<close> takes them from the tracker.\<close>

definition actualDuration :: "int \<Rightarrow> world \<Rightarrow> rat" where
  "actualDuration endTime w =
     (case tripStartTime w of
        Some t \<Rightarrow> of_int (js_round (fdiv (of_int (endTime - t)) (1000 * 60)))
      | None \<Rightarrow> 25)"

definition actualDistance :: "world \<Rightarrow> rat" where
  "actualDistance w =
     (if totalDistanceTraveled w > 0 then totalDistanceTraveled w else dbl (52/10))"

definition fare_applies :: "ride \<Rightarrow> fare_row \<Rightarrow> bool" where
  "fare_applies rideData f =
     (f_booking_type f = booking_type rideData \<and> f_vehicle_type f = vehicle_type rideData
      \<and> f_is_active f)"

text \<open>The row written at completion by the realtime provider.\<close>

definition complete_row :: "rat \<Rightarrow> rat \<Rightarrow> rat \<Rightarrow> ride \<Rightarrow> ride" where
  "complete_row totalFare km mins x =
     x\<lparr>status := completed, fare_amount := Some totalFare, distance_km := Some km,
       duration_minutes := Some mins, payment_status := Some ''completed''\<rparr>"

definition completeRide :: "int \<Rightarrow> string \<Rightarrow> completion_data option action" where
  "completeRide endTime rideId =
     try_finally
       (try_catch
          (setting (setRideLoading True)
             (reading (\<lambda>w. (actualDuration endTime w, actualDistance w))
                (\<lambda>(mins, km).
                   await (select_ride_single (\<lambda>x. ride_id x = rideId))
                     (\<lambda>fetched. case fetched of
                          Failed _ \<Rightarrow> setting (setError ''Failed to fetch ride data'') (ret None)
                        | Reply rideData \<Rightarrow>
                            await (select_fare_single (fare_applies rideData))
                              (\<lambda>fare. case fare of
                                   Failed _ \<Rightarrow>
                                     setting (setError ''Fare calculation failed - no fare matrix found'')
                                       (ret None)
                                 | Reply fareMatrix \<Rightarrow>
                                     (case ride_fare rideData fareMatrix km mins of
                                        (totalFare, fareBreakdown) \<Rightarrow>
                                          await (update_ride_single (\<lambda>x. ride_id x = rideId)
                                                   (complete_row totalFare km mins))
                                            (\<lambda>updated. case updated of
                                                 Failed _ \<Rightarrow>
                                                   setting (setError ''Failed to complete ride'') (ret None)
                                               | Reply updatedRide \<Rightarrow>
                                                   reading driver
                                                     (\<lambda>drv.
                                                        await
                                                          (case drv of
                                                             None \<Rightarrow> ret (Reply ())
                                                           | Some d \<Rightarrow>
                                                               if d_id d = [] then ret (Reply ())
                                                               else update_driver (d_id d)
                                                                      (\<lambda>row. row\<lparr>dr_status := online,
                                                                         dr_total_rides := d_total_rides d + 1\<rparr>))
                                                          (\<lambda>_. setting
                                                                 (\<lambda>w. updateDriverStatusFromRide online
                                                                        (setCurrentRide None (resetTripTracking w)))
                                                                 (ret (Some
                                                                    \<lparr>cd_distance = km, cd_duration = mins,
                                                                     cd_fareBreakdown = fareBreakdown,
                                                                     cd_booking_type = booking_type rideData,
                                                                     cd_rental_hours = rental_hours rideData\<rparr>)))))))))))
          (setting (setError ''Failed to complete ride'') (ret None)))
       (setRideLoading False)"

text \<open>The polling provider completes with one update that also clears the drop code.\<close>

definition completeRide_p1 :: "string \<Rightarrow> completion_data option action" where
  "completeRide_p1 rideId =
     try_finally
       (try_catch
          (setting (setRideLoading True)
             (await (update_ride_single (\<lambda>x. ride_id x = rideId)
                       (\<lambda>x. x\<lparr>status := completed, drop_otp := None\<rparr>))
                (\<lambda>updated. case updated of
                     Failed _ \<Rightarrow> setting (setError ''Failed to complete ride'') (ret None)
                   | Reply updatedRide \<Rightarrow>
                       setting (setCurrentRide None)
                         (reading driver_ident
                            (\<lambda>did.
                               await (if did \<noteq> [] then update_driver did (\<lambda>row. row\<lparr>dr_status := online\<rparr>)
                                      else ret (Reply ()))
                                 (\<lambda>_. ret (Some
                                    \<lparr>cd_distance = or_default (distance_km updatedRide) 0,
                                     cd_duration = or_default (duration_minutes updatedRide) 0,
                                     cd_fareBreakdown =
                                       [(''base_fare'', 50),
                                        (''distance_fare'', fmul (or_default (distance_km updatedRide) 0) 10),
                                        (''total_fare'', or_default (fare_amount updatedRide) 0),
                                        (''per_km_rate'', 10)],
                                     cd_booking_type = booking_type updatedRide,
                                     cd_rental_hours = None\<rparr>)))))))
          (setting (setError ''Failed to complete ride'') (ret None)))
       (setRideLoading False)"

section \<open>Reconciliation with the store\<close>

text \<open>\<^verbatim>\<open>.order('created_at', {ascending: false}).limit(1)\<close>\<close>

fun newest :: "ride list \<Rightarrow> ride option" where
  "newest [] = None"
| "newest (x # xs) =
     (case newest xs of
        None \<Rightarrow> Some x
      | Some y \<Rightarrow> if created_at y \<le> created_at x then Some x else Some y)"

definition active_ride_of :: "string \<Rightarrow> ride \<Rightarrow> bool" where
  "active_ride_of driverId x =
     (driver_id x = Some driverId \<and> status x \<in> set [accepted, driver_arrived, in_progress]
      \<and> booking_type x \<in> set [regular, rental, outstation, airport])"

text \<open>The query of \<open>loadAssignedRide\<close>, ending in \<^verbatim>\<open>.limit(1).maybeSingle()\<close>.\<close>

definition select_assigned_ride :: "string \<Rightarrow> ride option reply action" where
  "select_assigned_ride driverId =
     store_call (\<lambda>w. (Reply (newest (filter (active_ride_of driverId) (rides w))), w))"

text \<open>
  \<open>loadAssignedRide\<close> of the realtime provider; \<open>env_url\<close> says that the configured URL
  passes the test of the function. The callback \<^verbatim>\<open>onCurrentRideUpdate\<close> is the setter
  \<open>setCurrentRide\<close>, which the provider registers when it mounts.
\<close>

definition loadAssignedRide :: "unit action" where
  "loadAssignedRide =
     try_catch
       (reading driver_ident
          (\<lambda>driverId.
             if driverId = [] then setting (setCurrentRide None) (ret ())
             else reading env_url
                    (\<lambda>configured.
                       if \<not> configured then setting (setCurrentRide None) (ret ())
                       else await (select_assigned_ride driverId)
                              (\<lambda>res. case res of
                                   Failed code \<Rightarrow>
                                     if code \<noteq> ''PGRST116''
                                     then setting (setCurrentRide None) (ret ())
                                     else setting (setCurrentRide None) (ret ())
                                 | Reply assignedRide \<Rightarrow>
                                     setting (setCurrentRide assignedRide) (ret ())))))
       (setting (setCurrentRide None) (ret ()))"

text \<open>The polling provider returns from \<open>loadAssignedRide\<close> on an error without a state change.\<close>

definition select_assigned_rides_p1 :: "string \<Rightarrow> ride list reply action" where
  "select_assigned_rides_p1 driverId =
     store_call (\<lambda>w. (Reply (case newest (filter (\<lambda>x. driver_id x = Some driverId
                                    \<and> status x \<in> set [accepted, driver_arrived, in_progress])
                                  (rides w)) of
                          None \<Rightarrow> [] | Some x \<Rightarrow> [x]), w))"

definition loadAssignedRide_p1 :: "unit action" where
  "loadAssignedRide_p1 =
     reading driver_ident
       (\<lambda>driverId.
          if driverId = [] then ret ()
          else
            try_catch
              (reading env_url
                 (\<lambda>configured.
                    if \<not> configured then setting (setCurrentRide None) (ret ())
                    else await (select_assigned_rides_p1 driverId)
                           (\<lambda>res. case res of
                                Failed _ \<Rightarrow> ret ()
                              | Reply assignedRides \<Rightarrow>
                                  (case assignedRides of
                                     x # _ \<Rightarrow> setting (setCurrentRide (Some x)) (ret ())
                                   | [] \<Rightarrow> setting (setCurrentRide None) (ret ())))))
              (ret ()))"

text \<open>
  The unread ride requests of a user, newest first, at most ten; the decline markers of
  a user for given rides; the rides still on offer among given ids.
\<close>

definition select_unread_requests :: "string \<Rightarrow> notification list reply action" where
  "select_unread_requests uid =
     store_call (\<lambda>w. (Reply (take 10 (rev (sort_key n_created_at
        (filter (\<lambda>n. n_user_id n = uid \<and> n_type n = ride_request \<and> n_status n = unread)
           (notifications w))))), w))"

definition select_declined :: "string \<Rightarrow> string list \<Rightarrow> notification list reply action" where
  "select_declined uid rideIds =
     store_call (\<lambda>w. (Reply (filter (\<lambda>n. n_user_id n = uid \<and> n_type n = ride_declined
                                          \<and> n_ride_id n \<in> set rideIds)
                                 (notifications w)), w))"

definition select_requested_rides :: "string list \<Rightarrow> ride list reply action" where
  "select_requested_rides rideIds =
     store_call (\<lambda>w. (Reply (filter (\<lambda>x. ride_id x \<in> set rideIds \<and> status x = requested
                                          \<and> driver_id x = None)
                                 (rides w)), w))"

definition loadPendingRides :: "unit action" where
  "loadPendingRides =
     try_catch
       (reading driver_user_id
          (\<lambda>uid.
             if uid = [] then ret ()
             else reading env_url
                    (\<lambda>configured.
                       if \<not> configured then setting (setPendingRides []) (ret ())
                       else await (select_unread_requests uid)
                              (\<lambda>res. case res of
                                   Failed _ \<Rightarrow> ret ()
                                 | Reply found \<Rightarrow>
                                     if found = [] then setting (setPendingRides []) (ret ())
                                     else
                                       (let rideIds = filter (\<lambda>i. i \<noteq> []) (map n_ride_id found)
                                        in if rideIds = [] then setting (setPendingRides []) (ret ())
                                           else await (select_declined uid rideIds)
                                                  (\<lambda>declined.
                                                     let declinedRideIds =
                                                           (case declined of
                                                              Reply ds \<Rightarrow> filter (\<lambda>i. i \<noteq> []) (map n_ride_id ds)
                                                            | Failed _ \<Rightarrow> []);
                                                         availableRideIds =
                                                           filter (\<lambda>rideId. rideId \<notin> set declinedRideIds) rideIds
                                                     in if availableRideIds = []
                                                        then setting (setPendingRides []) (ret ())
                                                        else await (select_requested_rides availableRideIds)
                                                               (\<lambda>rs. case rs of
                                                                    Failed _ \<Rightarrow> ret ()
                                                                  | Reply pending \<Rightarrow>
                                                                      setting (setPendingRides pending) (ret ()))))))))
       (ret ())"

definition select_assigned_booking :: "string \<Rightarrow> scheduled_booking option reply action" where
  "select_assigned_booking driverId =
     store_call (\<lambda>w. (Reply (case sort_key sb_scheduled_time
                                   (filter (\<lambda>b. sb_assigned_driver_id b = Some driverId
                                                 \<and> sb_status b = ''assigned'')
                                      (scheduled_bookings w)) of
                          [] \<Rightarrow> None | b # _ \<Rightarrow> Some b), w))"

definition loadAssignedScheduledBooking :: "unit action" where
  "loadAssignedScheduledBooking =
     try_catch
       (reading driver_ident
          (\<lambda>driverId.
             if driverId = [] then ret ()
             else await (select_assigned_booking driverId)
                    (\<lambda>res. case res of
                         Failed _ \<Rightarrow> ret ()
                       | Reply assignedBooking \<Rightarrow>
                           setting (\<lambda>w. w\<lparr>assignedScheduledBooking := assignedBooking\<rparr>) (ret ()))))
       (ret ())"

text \<open>\<open>checkForNewRides\<close>, the pass run by the timers and by \<open>refreshRides\<close>.\<close>

definition checkForNewRides :: "unit action" where
  "checkForNewRides =
     try_catch
       (reading (\<lambda>w. (authLoading w, driver w))
          (\<lambda>(loading, authDriver).
             case authDriver of
               None \<Rightarrow> ret ()
             | Some d \<Rightarrow>
                 if loading then ret ()
                 else if d_status d = offline then ret ()
                 else await loadAssignedRide
                        (\<lambda>_. await (if d_status d = online then loadPendingRides else ret ())
                                (\<lambda>_. loadAssignedScheduledBooking))))
       (ret ())"

definition refreshRides :: "unit action" where
  "refreshRides = checkForNewRides"

text \<open>
  \<open>processNewNotifications\<close> merges the rides of the given notifications into the pending
  offers; \<open>checkForMissedNotifications\<close> feeds it every thirty seconds with the unread
  requests created since \<open>since\<close>, the \<^verbatim>\<open>lastNotificationCheck\<close> of the render that set
  the timer up: the callback of the interval keeps that value, whatever the function
  stores afterwards.
\<close>

definition processNewNotifications :: "notification list \<Rightarrow> unit action" where
  "processNewNotifications ns =
     try_catch
       (let rideIds = filter (\<lambda>i. i \<noteq> [])
                        (map (\<lambda>n. if n_ride_id n \<noteq> [] then n_ride_id n else n_rideId n) ns)
        in if rideIds = [] then ret ()
           else await (select_requested_rides rideIds)
                  (\<lambda>res. case res of
                       Failed _ \<Rightarrow> ret ()
                     | Reply found \<Rightarrow>
                         if found \<noteq> []
                         then setting
                                (\<lambda>w. setPendingRides
                                       (pendingRides w
                                          @ filter (\<lambda>r. ride_id r \<notin> set (map ride_id (pendingRides w))) found)
                                       w)
                                (ret ())
                         else ret ()))
       (ret ())"

definition select_missed :: "string \<Rightarrow> int \<Rightarrow> notification list reply action" where
  "select_missed uid since =
     store_call (\<lambda>w. (Reply (rev (sort_key n_created_at
        (filter (\<lambda>n. n_user_id n = uid \<and> n_type n = ride_request \<and> n_status n = unread
                      \<and> since \<le> n_created_at n)
           (notifications w)))), w))"

definition checkForMissedNotifications :: "int \<Rightarrow> int \<Rightarrow> unit action" where
  "checkForMissedNotifications since now =
     reading driver_user_id
       (\<lambda>uid.
          if uid = [] then ret ()
          else
            try_catch
              (await (select_missed uid since)
                 (\<lambda>res. case res of
                      Failed _ \<Rightarrow> ret ()
                    | Reply missed \<Rightarrow>
                        await (if missed \<noteq> [] then processNewNotifications missed else ret ())
                          (\<lambda>_. setting (\<lambda>w. w\<lparr>lastNotificationCheck := now\<rparr>) (ret ()))))
              (ret ()))"

section \<open>Accepting an offer\<close>

text \<open>The error of \<open>validateCompleteDriverProfile\<close>, if any.\<close>

definition validateCompleteDriverProfile :: "auth_driver option \<Rightarrow> string option" where
  "validateCompleteDriverProfile drv =
     (case drv of
        None \<Rightarrow> Some ''No driver data available''
      | Some d \<Rightarrow>
          if \<not> d_is_verified d then Some ''Driver account is not verified''
          else (case d_user d of
                  None \<Rightarrow> Some ''Driver full name is missing''
                | Some u \<Rightarrow>
                    if full_name u = [] then Some ''Driver full name is missing''
                    else if phone_number u = [] then Some ''Driver phone number is missing''
                    else (case d_vehicle d of
                            None \<Rightarrow> Some ''No vehicle assigned to driver''
                          | Some v \<Rightarrow>
                              if v_make v = [] \<or> v_model v = [] \<or> v_registration_number v = []
                              then Some ''Vehicle information is incomplete''
                              else None)))"

definition upsert_location :: "string \<Rightarrow> location \<Rightarrow> unit reply action" where
  "upsert_location uid l =
     store_call (\<lambda>w. (Reply (), w\<lparr>live_locations := (live_locations w)(uid \<mapsto> l)\<rparr>))"

text \<open>A plain insert violates the unique \<^verbatim>\<open>user_id\<close> when the user has a row.\<close>

definition insert_location :: "string \<Rightarrow> location \<Rightarrow> unit reply action" where
  "insert_location uid l =
     store_call (\<lambda>w. case live_locations w uid of
                        None \<Rightarrow> (Reply (), w\<lparr>live_locations := (live_locations w)(uid \<mapsto> l)\<rparr>)
                      | Some _ \<Rightarrow> (Failed ''23505'', w))"

definition update_location :: "string \<Rightarrow> location \<Rightarrow> unit reply action" where
  "update_location uid l =
     store_call (\<lambda>w. (Reply (),
       w\<lparr>live_locations := (case live_locations w uid of
                               None \<Rightarrow> live_locations w
                             | Some _ \<Rightarrow> (live_locations w)(uid \<mapsto> l))\<rparr>))"

definition startLocationSharing :: "bool action" where
  "startLocationSharing =
     reading (\<lambda>w. (driver_user_id w, currentLocation w))
       (\<lambda>(uid, loc).
          case loc of
            None \<Rightarrow> ret False
          | Some l \<Rightarrow>
              if uid = [] then ret False
              else
                try_catch
                  (await (upsert_location uid l)
                     (\<lambda>upserted. case upserted of
                          Reply _ \<Rightarrow> ret True
                        | Failed _ \<Rightarrow>
                            await (insert_location uid l)
                              (\<lambda>inserted. case inserted of
                                   Reply _ \<Rightarrow> ret True
                                 | Failed _ \<Rightarrow>
                                     await (update_location uid l)
                                       (\<lambda>updated. case updated of
                                            Failed _ \<Rightarrow> ret False
                                          | Reply _ \<Rightarrow> ret True))))
                  (ret False))"

text \<open>\<open>updateDriverStatus\<close> throws the error of the store again.\<close>

definition updateDriverStatus :: "driver_status \<Rightarrow> unit action" where
  "updateDriverStatus st =
     reading driver_ident
       (\<lambda>driverId.
          if driverId = [] then ret ()
          else
            try_catch
              (await (update_driver driverId (\<lambda>row. row\<lparr>dr_status := st\<rparr>))
                 (\<lambda>res. case res of Failed _ \<Rightarrow> throw | Reply _ \<Rightarrow> ret ()))
              throw)"

text \<open>A read whose data is only written to the log.\<close>

definition logged_read :: "unit reply action" where
  "logged_read = store_call (\<lambda>w. (Reply (), w))"

definition select_driver_single :: "string \<Rightarrow> driver_row reply action" where
  "select_driver_single driverId =
     store_call (\<lambda>w. (case drivers w driverId of
                         None \<Rightarrow> Failed ''PGRST116''
                       | Some row \<Rightarrow> Reply row, w))"

text \<open>The three debug queries at the head of \<open>acceptRide\<close>.\<close>

definition debugQueries :: "string \<Rightarrow> unit action" where
  "debugQueries driverId =
     await (select_driver_single driverId)
       (\<lambda>debugDriver.
          await (case debugDriver of
                   Reply row \<Rightarrow> if dr_user_id row \<noteq> [] then logged_read else ret (Reply ())
                 | Failed _ \<Rightarrow> ret (Reply ()))
            (\<lambda>_. await (case debugDriver of
                            Reply row \<Rightarrow> if dr_vehicle_id row \<noteq> [] then logged_read else ret (Reply ())
                          | Failed _ \<Rightarrow> ret (Reply ()))
                    (\<lambda>_. ret ())))"

text \<open>The filter and the row of the conditional update of \<open>acceptRide\<close>.\<close>

definition still_on_offer :: "string \<Rightarrow> ride \<Rightarrow> bool" where
  "still_on_offer rideId x = (ride_id x = rideId \<and> status x = requested \<and> driver_id x = None)"

definition accept_row :: "string \<Rightarrow> ride \<Rightarrow> ride" where
  "accept_row driverId x = x\<lparr>status := accepted, driver_id := Some driverId\<rparr>"

definition acceptRide :: "string \<Rightarrow> bool action" where
  "acceptRide rideId =
     reading driver
       (\<lambda>drv.
          case drv of
            None \<Rightarrow> ret False
          | Some d \<Rightarrow>
              if d_id d = [] \<or> d_user_id d = [] then ret False
              else
                try_catch
                  (await (debugQueries (d_id d))
                     (\<lambda>_. if validateCompleteDriverProfile (Some d) \<noteq> None then ret False
                           else if \<not> d_is_verified d then ret False
                           else if (case d_user d of
                                      None \<Rightarrow> True
                                    | Some u \<Rightarrow> full_name u = [] \<or> phone_number u = [])
                           then ret False
                           else await startLocationSharing
                                  (\<lambda>locationShared.
                                     if \<not> locationShared then ret False
                                     else await (update_ride_single (still_on_offer rideId)
                                                   (accept_row (d_id d)))
                                            (\<lambda>res. case res of
                                                 Failed code \<Rightarrow>
                                                   if code = ''PGRST116'' then ret False else ret False
                                               | Reply updatedRide \<Rightarrow>
                                                   await (try_catch (updateDriverStatus busy) (ret ()))
                                                     (\<lambda>_. setting
                                                            (\<lambda>w. setPendingRides
                                                                   (filter (\<lambda>r. ride_id r \<noteq> rideId) (pendingRides w))
                                                                   (setCurrentRide (Some updatedRide) w))
                                                            (ret True))))))
                  (ret False))"

definition acceptRide_p1 :: "string \<Rightarrow> bool action" where
  "acceptRide_p1 rideId =
     reading driver_ident
       (\<lambda>driverId.
          if driverId = [] then ret False
          else
            try_finally
              (try_catch
                 (setting (setRideLoading True)
                    (await (update_ride_single (still_on_offer rideId) (accept_row driverId))
                       (\<lambda>res. case res of
                            Failed _ \<Rightarrow> setting (setError ''Failed to accept ride'') (ret False)
                          | Reply updatedRide \<Rightarrow>
                              setting
                                (\<lambda>w. setPendingRides
                                       (filter (\<lambda>r. ride_id r \<noteq> rideId) (pendingRides w))
                                       (setCurrentRide (Some updatedRide) w))
                                (await (update_driver driverId (\<lambda>row. row\<lparr>dr_status := busy\<rparr>))
                                   (\<lambda>_. ret True)))))
                 (setting (setError ''Failed to accept ride'') (ret False)))
              (setRideLoading False))"

section \<open>The remaining transitions\<close>








section \<open>Reasoning about actions\<close>

text \<open>An action that does not write the rides.\<close>

definition frame :: "'a action \<Rightarrow> bool" where
  "frame m = (\<forall>w. rides (snd (m w)) = rides w)"

text \<open>Pre- and postconditions of an action.\<close>

definition triple :: "(world \<Rightarrow> bool) \<Rightarrow> 'a action \<Rightarrow> ('a outcome \<Rightarrow> world \<Rightarrow> bool) \<Rightarrow> bool" where
  "triple P m Q = (\<forall>w. P w \<longrightarrow> Q (fst (m w)) (snd (m w)))"

text \<open>What the body of \<open>acceptRide\<close> may have done to the rides \<open>R\<close> it started from.\<close>

definition accept_post :: "ride list \<Rightarrow> string \<Rightarrow> string \<Rightarrow> bool outcome \<Rightarrow> world \<Rightarrow> bool" where
  "accept_post R rideId driverId res w =
     ((rides w = R \<and> res \<noteq> Returned True)
      \<or> (\<exists>r. filter (still_on_offer rideId) R = [r]
              \<and> rides w = update_where (still_on_offer rideId) (accept_row driverId) R
              \<and> res = Returned True))"


section \<open>Example data\<close>

definition example_ride :: ride where
  "example_ride =
     \<lparr>ride_id = ''r1'', status = driver_arrived, driver_id = Some ''d1'',
      pickup_otp = Some ''1111'', drop_otp = Some ''2222'', booking_type = regular,
      vehicle_type = ''sedan'', rental_hours = None, fare_amount = None, distance_km = None,
      duration_minutes = None, payment_status = None, cancellation_reason = None,
      cancelled_by = None, created_at = 0\<rparr>"

definition example_driver :: auth_driver where
  "example_driver =
     \<lparr>d_id = ''d1'', d_user_id = ''u1'', d_vehicle_id = ''v1'', d_status = online,
      d_is_verified = True, d_total_rides = 0,
      d_user = Some \<lparr>full_name = ''Asha'', phone_number = ''900''\<rparr>,
      d_vehicle = Some \<lparr>v_make = ''Maruti'', v_model = ''Dzire'', v_registration_number = ''TN70''\<rparr>\<rparr>"

definition example_world :: world where
  "example_world =
     \<lparr>rides = [example_ride], scheduled_bookings = [], drivers = Map.empty, notifications = [], fare_matrix = [],
      live_locations = Map.empty, faults = [], env_url = True, currentLocation = Some (12, 77),
      driver = Some example_driver, authLoading = False, currentRide = None,
      assignedScheduledBooking = None, pendingRides = [], error = None,
      rideLoading = False, lastNotificationCheck = 0, tripStartTime = None,
      tripStartLocation = None, totalDistanceTraveled = 0, lastKnownLocation = None\<rparr>"

text \<open>A ride that was accepted and has a pickup code, the driver not yet marked as arrived.\<close>

definition accepted_world :: world where
  "accepted_world = example_world\<lparr>rides := [example_ride\<lparr>status := accepted\<rparr>]\<rparr>"

text \<open>A trip in progress with a drop code, 12.5 km and 30 minutes on the tracker.\<close>

definition example_fare :: fare_row where
  "example_fare =
     \<lparr>f_booking_type = regular, f_vehicle_type = ''sedan'', f_is_active = True, base_fare = 50,
      per_km_rate = 10, per_minute_rate = Some 0, platform_fee_percent = 0, minimum_fare = 100,
      hourly_rate = None\<rparr>"

definition trip_world :: world where
  "trip_world =
     example_world\<lparr>rides := [example_ride\<lparr>status := in_progress, pickup_otp := None\<rparr>],
       drivers := [''d1'' \<mapsto> \<lparr>dr_user_id = ''u1'', dr_vehicle_id = ''v1'', dr_status = busy,
                               dr_total_rides = 0\<rparr>],
       fare_matrix := [example_fare],
       driver := Some (example_driver\<lparr>d_status := busy\<rparr>),
       tripStartTime := Some 0, totalDistanceTraveled := 25/2\<rparr>"

text \<open>A rental ride booked for four hours and the fare row that applies to it.\<close>

definition rental_ride :: ride where
  "rental_ride = example_ride\<lparr>status := in_progress, booking_type := rental, rental_hours := Some 4\<rparr>"

definition rental_rule :: fare_row where
  "rental_rule =
     \<lparr>f_booking_type = rental, f_vehicle_type = ''sedan'', f_is_active = True, base_fare = 100,
      per_km_rate = 10, per_minute_rate = None, platform_fee_percent = 10, minimum_fare = 100,
      hourly_rate = Some 150\<rparr>"

definition rental_fares_row :: scheduled_fare_row where
  "rental_fares_row =
     \<lparr>sf_hourly_rate = Some 150, sf_driver_allowance_per_day = Some 200,
      sf_overtime_rate = Some 180, sf_km_limit_per_hour = Some 10, sf_extra_km_rate = Some 8,
      sf_base_fare = None, sf_per_km_rate = None, sf_driver_allowance = None,
      sf_night_charge_percent = None, sf_airport_fee = None, sf_peak_hour_multiplier = None\<rparr>"

text \<open>
  A ride on offer to the example driver; the same store after the driver has declined it
  and the matching process has sent a second request for it; and the trip in progress as
  the provider shows it.
\<close>

definition offer_ride :: ride where
  "offer_ride = example_ride\<lparr>status := requested, driver_id := None, pickup_otp := None,
     drop_otp := None\<rparr>"

definition offer_notification :: "int \<Rightarrow> notification" where
  "offer_notification t =
     \<lparr>n_user_id = ''u1'', n_type = ride_request, n_status = unread, n_ride_id = ''r1'',
      n_rideId = [], n_created_at = t\<rparr>"

definition offer_world :: world where
  "offer_world =
     example_world\<lparr>rides := [offer_ride], notifications := [offer_notification 1],
       pendingRides := [offer_ride]\<rparr>"

definition renotified_world :: world where
  "renotified_world =
     (let w1 = snd (declineRide 2 ''r1'' offer_world)
      in w1\<lparr>notifications := notifications w1 @ [offer_notification 3]\<rparr>)"

definition riding_world :: world where
  "riding_world =
     trip_world\<lparr>currentRide := Some (example_ride\<lparr>status := in_progress, pickup_otp := None\<rparr>)\<rparr>"

text \<open>
  A fare row with a fee of five percent on a base of 62 and the trip in progress under
  it; a fare row with a rate per minute and a fee of ten percent, and the trip in progress
  under it; a row of the rental fares with every column missing.
\<close>

definition fee_rule :: fare_row where
  "fee_rule =
     \<lparr>f_booking_type = regular, f_vehicle_type = ''sedan'', f_is_active = True, base_fare = 62,
      per_km_rate = 0, per_minute_rate = None, platform_fee_percent = 5, minimum_fare = 0,
      hourly_rate = None\<rparr>"

definition fee_world :: world where
  "fee_world = trip_world\<lparr>fare_matrix := [fee_rule]\<rparr>"

definition timed_fare :: fare_row where
  "timed_fare = example_fare\<lparr>per_minute_rate := Some 2, platform_fee_percent := 10\<rparr>"

definition timed_world :: world where
  "timed_world = trip_world\<lparr>fare_matrix := [timed_fare]\<rparr>"

definition missing_fares_row :: scheduled_fare_row where
  "missing_fares_row =
     \<lparr>sf_hourly_rate = None, sf_driver_allowance_per_day = None, sf_overtime_rate = None,
      sf_km_limit_per_hour = None, sf_extra_km_rate = None, sf_base_fare = None,
      sf_per_km_rate = None, sf_driver_allowance = None, sf_night_charge_percent = None,
      sf_airport_fee = None, sf_peak_hour_multiplier = None\<rparr>"

section \<open>Properties of the one-time codes\<close>














section \<open>Evaluating store calls\<close>

lemma store_call_quiet:
  assumes "faults w = []"
  shows "store_call q w = (case q w of (r, w') \<Rightarrow> (Returned r, w'))"
proof -
  have eq: "w\<lparr>faults := tl (faults w)\<rparr> = w" using assms by simp
  show ?thesis unfolding store_call_def Let_def eq by (simp add: next_fault_def assms)
qed

lemma update_single_one:
  assumes "filter P tbl = [r]"
  shows "update_single P upd tbl = (Reply (upd r), update_where P upd tbl)"
  using assms by (simp add: update_single_def update_where_def)

lemma verify_quiet:
  assumes "filter (\<lambda>x. ride_id x = rid) (rides w) = [r]" and "faults w = []"
  shows "verifyPickupOTP t rid otp w =
    (if pickup_otp r = Some otp
     then (Returned True,
           w\<lparr>rides := update_where (\<lambda>x. ride_id x = rid) start_trip (rides w),
             tripStartTime := Some t, tripStartLocation := currentLocation w,
             totalDistanceTraveled := 0, lastKnownLocation := currentLocation w,
             currentRide := Some (start_trip r), rideLoading := False\<rparr>)
     else (Returned False, w\<lparr>error := Some ''Incorrect OTP'', rideLoading := False\<rparr>))"
  using assms
  by (simp add: verifyPickupOTP_def action_defs setter_defs select_ride_single_def
      update_ride_single_def store_call_quiet select_single_def update_single_one)

lemma fault_cases:
  obtains "faults w = []" | fs where "faults w = NoFault # fs"
  | c fs where "faults w = Fail c # fs" | fs where "faults w = Crash # fs"
proof (cases "faults w")
  case Nil
  then show ?thesis using that by simp
next
  case (Cons f fs)
  then show ?thesis using that by (cases f) simp_all
qed

lemmas store_defs = store_call_def next_fault_def Let_def select_ride_single_def
  update_ride_single_def update_ride_def

lemma single_row:
  assumes "select_single P tbl = Reply r"
  shows "filter P tbl = [r]" and "r \<in> set tbl" and "P r"
proof -
  show f: "filter P tbl = [r]"
    using assms by (auto simp: select_single_def split: list.splits)
  then have "r \<in> set (filter P tbl)" by simp
  then show "r \<in> set tbl" and "P r" by simp_all
qed

lemma verify_mismatch:
  assumes "\<forall>x \<in> set (rides w). ride_id x = rid \<longrightarrow> pickup_otp x \<noteq> Some otp"
  shows "fst (verifyPickupOTP t rid otp w) = Returned False
         \<and> rides (snd (verifyPickupOTP t rid otp w)) = rides w"
proof -
  have sel: "pickup_otp r \<noteq> Some otp"
    if "select_single (\<lambda>x. ride_id x = rid) (rides w) = Reply r" for r
    using single_row(2,3) [OF that] assms by simp
  show ?thesis
    using sel
    by (cases w rule: fault_cases; cases "select_single (\<lambda>x. ride_id x = rid) (rides w)")
       (simp_all add: verifyPickupOTP_def action_defs setter_defs store_defs)
qed

lemma verify_success_only:
  assumes "fst (verifyPickupOTP t rid otp w) = Returned True"
  shows "\<exists>r. filter (\<lambda>x. ride_id x = rid) (rides w) = [r] \<and> pickup_otp r = Some otp
             \<and> rides (snd (verifyPickupOTP t rid otp w))
                 = update_where (\<lambda>x. ride_id x = rid) start_trip (rides w)"
  using assms
  apply (cases w rule: fault_cases; cases "select_single (\<lambda>x. ride_id x = rid) (rides w)")
  apply (auto simp: verifyPickupOTP_def action_defs setter_defs store_defs select_single_def
      update_single_def update_where_def
      split: list.splits fault.splits if_splits)
  done

lemma verify_failure_keeps:
  assumes "fst (verifyPickupOTP t rid otp w) \<noteq> Returned True"
  shows "rides (snd (verifyPickupOTP t rid otp w)) = rides w"
  using assms
  apply (cases w rule: fault_cases; cases "select_single (\<lambda>x. ride_id x = rid) (rides w)")
  apply (auto simp: verifyPickupOTP_def action_defs setter_defs store_defs select_single_def
      update_single_def update_where_def
      split: list.splits fault.splits if_splits)
  done

lemma verify_p1_mismatch:
  assumes "\<forall>x \<in> set (rides w). ride_id x = rid \<longrightarrow> pickup_otp x \<noteq> Some otp"
  shows "fst (verifyPickupOTP_p1 rid otp w) = Returned False
         \<and> rides (snd (verifyPickupOTP_p1 rid otp w)) = rides w"
proof -
  have "filter (\<lambda>x. ride_id x = rid \<and> pickup_otp x = Some otp) (rides w) = []"
    using assms by (auto simp: filter_empty_conv)
  then show ?thesis
    by (cases w rule: fault_cases)
       (simp_all add: verifyPickupOTP_p1_def action_defs setter_defs store_defs update_single_def)
qed

lemma verify_p1_success_only:
  assumes "fst (verifyPickupOTP_p1 rid otp w) = Returned True"
  shows "\<exists>r. filter (\<lambda>x. ride_id x = rid \<and> pickup_otp x = Some otp) (rides w) = [r]
             \<and> rides (snd (verifyPickupOTP_p1 rid otp w))
                 = update_where (\<lambda>x. ride_id x = rid \<and> pickup_otp x = Some otp) start_trip (rides w)"
  using assms
  apply (cases w rule: fault_cases)
  apply (auto simp: verifyPickupOTP_p1_def action_defs setter_defs store_defs
      update_single_def update_where_def
      split: list.splits fault.splits if_splits)
  done

lemma verify_p1_failure_keeps:
  assumes "fst (verifyPickupOTP_p1 rid otp w) \<noteq> Returned True"
  shows "rides (snd (verifyPickupOTP_p1 rid otp w)) = rides w"
  using assms
  apply (cases w rule: fault_cases)
  apply (auto simp: verifyPickupOTP_p1_def action_defs setter_defs store_defs
      update_single_def update_where_def
      split: list.splits fault.splits if_splits)
  done

lemma filter_conj_single:
  assumes "filter P tbl = [r]"
  shows "filter (\<lambda>x. P x \<and> Q x) tbl = (if Q r then [r] else [])"
proof -
  have "filter (\<lambda>x. P x \<and> Q x) tbl = filter Q (filter P tbl)"
    by (simp add: conj_commute)
  then show ?thesis using assms by simp
qed

lemma verify_p1_quiet:
  assumes "filter (\<lambda>x. ride_id x = rid) (rides w) = [r]" and "faults w = []"
  shows "fst (verifyPickupOTP_p1 rid otp w) = Returned (pickup_otp r = Some otp)"
  using assms(2) filter_conj_single [OF assms(1), of "\<lambda>x. pickup_otp x = Some otp"]
  by (simp add: verifyPickupOTP_p1_def action_defs setter_defs update_ride_single_def
      store_call_quiet update_single_def)

lemma update_where_single:
  assumes "filter P tbl = [r]" and "\<And>x. P (upd x) = P x"
  shows "filter P (update_where P upd tbl) = [upd r]"
proof -
  have "filter P (update_where P upd tbl) = map upd (filter P tbl)"
    using assms(2) by (induction tbl) (simp_all add: update_where_def)
  then show ?thesis using assms(1) by simp
qed

lemma update_where_conj_single:
  assumes "filter P tbl = [r]" and "Q r"
  shows "update_where (\<lambda>x. P x \<and> Q x) upd tbl = update_where P upd tbl"
proof -
  have "\<forall>x \<in> set tbl. P x \<longrightarrow> x = r"
  proof (intro ballI impI)
    fix x assume "x \<in> set tbl" "P x"
    then have "x \<in> set (filter P tbl)" by simp
    then show "x = r" using assms(1) by simp
  qed
  then show ?thesis
    using assms(2) by (auto simp: update_where_def)
qed

text \<open>
  C2, as amended. For a ride with one row in the store, \<open>verifyPickupOTP\<close> (either
  provider) consults the stored pickup code only and never the status of the ride. When
  the store answers, it returns true exactly when the supplied code equals the stored
  one. Whenever it returns true the code matched and the row has become
  \<^verbatim>\<open>in_progress\<close> with the pickup code cleared; for a code that does not match (a cleared
  code never matches) it returns false, and whenever it does not return true the rows of
  the rides are as before.
\<close>

theorem verifyPickupOTP_checks_code_only:
  assumes "filter (\<lambda>x. ride_id x = rid) (rides w) = [r]"
  shows "(faults w = [] \<longrightarrow>
            fst (verifyPickupOTP t rid otp w) = Returned (pickup_otp r = Some otp)
            \<and> fst (verifyPickupOTP_p1 rid otp w) = Returned (pickup_otp r = Some otp))
       \<and> (fst (verifyPickupOTP t rid otp w) = Returned True \<longrightarrow>
            pickup_otp r = Some otp
            \<and> rides (snd (verifyPickupOTP t rid otp w))
                = update_where (\<lambda>x. ride_id x = rid) start_trip (rides w)
            \<and> filter (\<lambda>x. ride_id x = rid) (rides (snd (verifyPickupOTP t rid otp w)))
                = [r\<lparr>status := in_progress, pickup_otp := None\<rparr>])
       \<and> (fst (verifyPickupOTP_p1 rid otp w) = Returned True \<longrightarrow>
            pickup_otp r = Some otp
            \<and> rides (snd (verifyPickupOTP_p1 rid otp w))
                = update_where (\<lambda>x. ride_id x = rid) start_trip (rides w)
            \<and> filter (\<lambda>x. ride_id x = rid) (rides (snd (verifyPickupOTP_p1 rid otp w)))
                = [r\<lparr>status := in_progress, pickup_otp := None\<rparr>])
       \<and> (pickup_otp r \<noteq> Some otp \<longrightarrow>
            fst (verifyPickupOTP t rid otp w) = Returned False
            \<and> fst (verifyPickupOTP_p1 rid otp w) = Returned False)
       \<and> (fst (verifyPickupOTP t rid otp w) \<noteq> Returned True \<longrightarrow>
            rides (snd (verifyPickupOTP t rid otp w)) = rides w)
       \<and> (fst (verifyPickupOTP_p1 rid otp w) \<noteq> Returned True \<longrightarrow>
            rides (snd (verifyPickupOTP_p1 rid otp w)) = rides w)"
proof -
  have only_r: "x = r" if "x \<in> set (rides w)" "ride_id x = rid" for x
  proof -
    from that have "x \<in> set (filter (\<lambda>x. ride_id x = rid) (rides w))" by simp
    then show ?thesis using assms by simp
  qed
  have tr: "filter (\<lambda>x. ride_id x = rid) (update_where (\<lambda>x. ride_id x = rid) start_trip (rides w))
              = [r\<lparr>status := in_progress, pickup_otp := None\<rparr>]"
    using update_where_single [OF assms, of start_trip] by (simp add: start_trip_def)
  have quiet: "faults w = [] \<longrightarrow>
            fst (verifyPickupOTP t rid otp w) = Returned (pickup_otp r = Some otp)
            \<and> fst (verifyPickupOTP_p1 rid otp w) = Returned (pickup_otp r = Some otp)"
    using verify_quiet [OF assms, of t otp] verify_p1_quiet [OF assms, of otp] by simp
  have s2: "fst (verifyPickupOTP t rid otp w) = Returned True \<longrightarrow>
            pickup_otp r = Some otp
            \<and> rides (snd (verifyPickupOTP t rid otp w))
                = update_where (\<lambda>x. ride_id x = rid) start_trip (rides w)
            \<and> filter (\<lambda>x. ride_id x = rid) (rides (snd (verifyPickupOTP t rid otp w)))
                = [r\<lparr>status := in_progress, pickup_otp := None\<rparr>]"
    using verify_success_only [of t rid otp w] assms tr by auto
  have s1: "fst (verifyPickupOTP_p1 rid otp w) = Returned True \<longrightarrow>
            pickup_otp r = Some otp
            \<and> rides (snd (verifyPickupOTP_p1 rid otp w))
                = update_where (\<lambda>x. ride_id x = rid) start_trip (rides w)
            \<and> filter (\<lambda>x. ride_id x = rid) (rides (snd (verifyPickupOTP_p1 rid otp w)))
                = [r\<lparr>status := in_progress, pickup_otp := None\<rparr>]"
  proof
    assume ok: "fst (verifyPickupOTP_p1 rid otp w) = Returned True"
    from verify_p1_success_only [OF ok] obtain r' where
      f: "filter (\<lambda>x. ride_id x = rid \<and> pickup_otp x = Some otp) (rides w) = [r']"
      and u: "rides (snd (verifyPickupOTP_p1 rid otp w))
                 = update_where (\<lambda>x. ride_id x = rid \<and> pickup_otp x = Some otp) start_trip (rides w)"
      by blast
    from f filter_conj_single [OF assms, of "\<lambda>x. pickup_otp x = Some otp"]
    have m: "pickup_otp r = Some otp" by (auto split: if_splits)
    from u update_where_conj_single [OF assms, of "\<lambda>x. pickup_otp x = Some otp" start_trip] m
    have "rides (snd (verifyPickupOTP_p1 rid otp w))
            = update_where (\<lambda>x. ride_id x = rid) start_trip (rides w)"
      by simp
    with m tr show "pickup_otp r = Some otp
            \<and> rides (snd (verifyPickupOTP_p1 rid otp w))
                = update_where (\<lambda>x. ride_id x = rid) start_trip (rides w)
            \<and> filter (\<lambda>x. ride_id x = rid) (rides (snd (verifyPickupOTP_p1 rid otp w)))
                = [r\<lparr>status := in_progress, pickup_otp := None\<rparr>]"
      by simp
  qed
  have mm: "pickup_otp r \<noteq> Some otp \<longrightarrow>
            fst (verifyPickupOTP t rid otp w) = Returned False
            \<and> fst (verifyPickupOTP_p1 rid otp w) = Returned False"
    using verify_mismatch [of w rid otp t] verify_p1_mismatch [of w rid otp] only_r by blast
  from quiet s2 s1 mm verify_failure_keeps [of t rid otp w] verify_p1_failure_keeps [of rid otp w]
  show ?thesis by (intro conjI impI) blast+
qed

text \<open>
  C2 as stated fails: a ride that is \<^verbatim>\<open>accepted\<close>, not \<^verbatim>\<open>driver_arrived\<close>, and whose
  stored code is supplied is moved to \<^verbatim>\<open>in_progress\<close> by both providers.
\<close>

theorem verifyPickupOTP_status_counterexample:
  "map status (rides accepted_world) = [accepted]
   \<and> fst (verifyPickupOTP 0 ''r1'' ''1111'' accepted_world) = Returned True
   \<and> map status (rides (snd (verifyPickupOTP 0 ''r1'' ''1111'' accepted_world))) = [in_progress]
   \<and> fst (verifyPickupOTP_p1 ''r1'' ''1111'' accepted_world) = Returned True
   \<and> map status (rides (snd (verifyPickupOTP_p1 ''r1'' ''1111'' accepted_world))) = [in_progress]"
  by (simp add: verifyPickupOTP_def verifyPickupOTP_p1_def action_defs setter_defs store_defs
      select_single_def update_single_def update_where_def start_trip_def
      accepted_world_def example_world_def example_ride_def)

theorem verifyPickupOTP_checks_code_only_witness:
  "filter (\<lambda>x. ride_id x = ''r1'') (rides example_world) = [example_ride]
   \<and> faults example_world = []
   \<and> fst (verifyPickupOTP 0 ''r1'' ''1111'' example_world) = Returned True
   \<and> fst (verifyPickupOTP 0 ''r1'' ''9999'' example_world) = Returned False
   \<and> rides (snd (verifyPickupOTP 0 ''r1'' ''9999'' example_world)) = rides example_world"
proof -
  have h: "filter (\<lambda>x. ride_id x = ''r1'') (rides example_world) = [example_ride]"
    by (simp add: example_world_def example_ride_def)
  have q: "faults example_world = []"
    by (simp add: example_world_def)
  have o: "pickup_otp example_ride = Some ''1111''" "pickup_otp example_ride \<noteq> Some ''9999''"
    by (simp_all add: example_ride_def)
  note good = verifyPickupOTP_checks_code_only [OF h, of 0 "''1111''"]
  note bad = verifyPickupOTP_checks_code_only [OF h, of 0 "''9999''"]
  from good q o have a: "fst (verifyPickupOTP 0 ''r1'' ''1111'' example_world) = Returned True"
    by simp
  from bad o have b: "fst (verifyPickupOTP 0 ''r1'' ''9999'' example_world) = Returned False"
    by blast
  from bad b have c: "rides (snd (verifyPickupOTP 0 ''r1'' ''9999'' example_world)) = rides example_world"
    by simp
  from h q a b c show ?thesis by (intro conjI)
qed

lemma decline_both_fail:
  assumes "driver w = Some d" "d_user_id d \<noteq> []" "faults w = Fail c1 # Fail c2 # fs"
  shows "declineRide now rid w =
           (Returned True,
            w\<lparr>faults := fs, pendingRides := filter (\<lambda>ride. ride_id ride \<noteq> rid) (pendingRides w)\<rparr>)"
  using assms
  by (simp add: declineRide_def action_defs setter_defs store_defs driver_user_id_def
      update_notifications_def insert_notification_def)

lemma decline_quiet:
  assumes "driver w = Some d" "d_user_id d \<noteq> []" "faults w = []"
  shows "declineRide now rid w =
           (Returned True,
            w\<lparr>notifications :=
                 update_where (request_for (d_user_id d) rid) (\<lambda>n. n\<lparr>n_status := notification_cancelled\<rparr>)
                   (notifications w) @ [decline_marker now (d_user_id d) rid],
              pendingRides := filter (\<lambda>ride. ride_id ride \<noteq> rid) (pendingRides w)\<rparr>)"
  using assms
  by (simp add: declineRide_def action_defs setter_defs store_defs driver_user_id_def
      update_notifications_def insert_notification_def)

lemma decline_p1_fail:
  assumes "faults w = Fail c # fs"
  shows "fst (declineRide_p1 rid w) = Returned True
         \<and> notifications (snd (declineRide_p1 rid w)) = notifications w"
  using assms
  by (simp add: declineRide_p1_def action_defs setter_defs store_defs
      update_notifications_def)

text \<open>
  C10. When the driver has a user id and the store answers both writes of \<open>declineRide\<close>
  with an error (the update that cancels the notification and the insert of the decline
  marker), the call still returns true and the notifications are as before; the result
  is the same as that of a call whose writes succeed and leave the marker behind. The
  polling provider ignores the answer of its single write in the same way.
\<close>

theorem declineRide_true_when_both_writes_fail:
  assumes "driver w = Some d" "d_user_id d \<noteq> []" "faults w = Fail c1 # Fail c2 # fs"
  shows "fst (declineRide now rid w) = Returned True
         \<and> notifications (snd (declineRide now rid w)) = notifications w
         \<and> fst (declineRide now rid (w\<lparr>faults := []\<rparr>)) = Returned True
         \<and> decline_marker now (d_user_id d) rid
             \<in> set (notifications (snd (declineRide now rid (w\<lparr>faults := []\<rparr>))))
         \<and> fst (declineRide_p1 rid w) = Returned True
         \<and> notifications (snd (declineRide_p1 rid w)) = notifications w"
proof -
  have q: "driver (w\<lparr>faults := []\<rparr>) = Some d" "faults (w\<lparr>faults := []\<rparr>) = []"
    using assms(1) by simp_all
  show ?thesis
    using decline_p1_fail [OF assms(3), of rid]
    by (simp add: decline_both_fail [OF assms] decline_quiet [OF q(1) assms(2) q(2)])
qed

theorem declineRide_true_when_both_writes_fail_witness:
  "driver (example_world\<lparr>faults := [Fail ''500'', Fail ''500'']\<rparr>) = Some example_driver
   \<and> d_user_id example_driver \<noteq> []
   \<and> fst (declineRide 5 ''r1'' (example_world\<lparr>faults := [Fail ''500'', Fail ''500'']\<rparr>))
       = Returned True
   \<and> notifications (snd (declineRide 5 ''r1'' (example_world\<lparr>faults := [Fail ''500'', Fail ''500'']\<rparr>)))
       = []"
proof -
  have h: "driver (example_world\<lparr>faults := [Fail ''500'', Fail ''500'']\<rparr>) = Some example_driver"
    "d_user_id example_driver \<noteq> []"
    "faults (example_world\<lparr>faults := [Fail ''500'', Fail ''500'']\<rparr>) = [Fail ''500'', Fail ''500'']"
    by (simp_all add: example_world_def example_driver_def)
  have n: "notifications (example_world\<lparr>faults := [Fail ''500'', Fail ''500'']\<rparr>) = []"
    by (simp add: example_world_def)
  from declineRide_true_when_both_writes_fail [OF h, of 5 "''r1''"] n h(1,2)
  show ?thesis by simp
qed

section \<open>Properties of the arithmetic\<close>

text \<open>
  The binade of a positive number is the exponent of its leading bit, which gives the
  rounding in closed form; numbers that are binary64 values are left as they are, among
  them the integers up to \<open>2\<^sup>5\<^sup>3\<close>.
\<close>

lemma blen_pos: "0 < n \<Longrightarrow> 0 < blen n"
  by (subst blen.simps) simp

lemma blen_bounds: "0 < n \<Longrightarrow> 2 ^ (blen n - 1) \<le> n \<and> n < 2 ^ blen n"
proof (induction n rule: blen.induct)
  case (1 n)
  show ?case
  proof (cases "n div 2 = 0")
    case True
    with 1(2) have "n = 1" by (auto simp: div_eq_0_iff)
    then show ?thesis by (simp add: blen.simps [of "Suc 0"] blen.simps [of 0])
  next
    case False
    with 1 have ih: "2 ^ (blen (n div 2) - 1) \<le> n div 2" "n div 2 < 2 ^ blen (n div 2)"
      by auto
    have pos: "0 < blen (n div 2)" using False by (simp add: blen.simps [of "n div 2"])
    have b: "blen n = Suc (blen (n div 2))" using 1(2) by (simp add: blen.simps [of n])
    have "2 ^ blen (n div 2) \<le> n"
    proof -
      have "2 * 2 ^ (blen (n div 2) - 1) \<le> 2 * (n div 2)" using ih(1) by simp
      moreover have "2 * 2 ^ (blen (n div 2) - 1) = (2::nat) ^ blen (n div 2)"
        using pos by (cases "blen (n div 2)") simp_all
      ultimately show ?thesis by simp
    qed
    moreover have "n < 2 * 2 ^ blen (n div 2)"
      using ih(2) by simp
    ultimately show ?thesis by (simp add: b)
  qed
qed

lemma floor_rat_numeral: "\<lfloor>numeral a / numeral b :: rat\<rfloor> = numeral a div numeral b"
  by (metis floor_divide_of_int_eq of_int_numeral)

lemma two_pow_le_of_nat: "2 ^ j \<le> (n::nat) \<Longrightarrow> (2::rat) ^ j \<le> of_nat n"
proof -
  assume "2 ^ j \<le> n"
  then have "(of_nat (2 ^ j) :: rat) \<le> of_nat n" by (simp only: of_nat_le_iff)
  then show ?thesis by (simp only: of_nat_power of_nat_numeral)
qed

lemma of_nat_le_two_pow: "(n::nat) \<le> 2 ^ j \<Longrightarrow> (of_nat n :: rat) \<le> 2 ^ j"
proof -
  assume "n \<le> 2 ^ j"
  then have "(of_nat n :: rat) \<le> of_nat (2 ^ j)" by (simp only: of_nat_le_iff)
  then show ?thesis by (simp only: of_nat_power of_nat_numeral)
qed

lemma powi_two_mono: "e \<le> f \<Longrightarrow> (2::rat) powi e \<le> 2 powi f"
  by (rule power_int_increasing) simp_all

lemma powi_two_pos: "0 < (2::rat) powi e"
  by (rule zero_less_power_int) simp

lemma powi_two_Suc: "(2::rat) powi (e + 1) = 2 * 2 powi e"
  by (simp add: power_int_add)

lemma binade_unique:
  assumes "(2::rat) powi e \<le> x" "x < 2 powi (e + 1)" "2 powi f \<le> x" "x < 2 powi (f + 1)"
  shows "e = f"
proof (rule ccontr)
  assume "e \<noteq> f"
  then consider "e + 1 \<le> f" | "f + 1 \<le> e" by linarith
  then show False
  proof cases
    case 1
    from powi_two_mono [OF 1] assms(2,3) show False by linarith
  next
    case 2
    from powi_two_mono [OF 2] assms(1,4) show False by linarith
  qed
qed

lemma binade_bounds:
  assumes "0 < x"
  shows "2 powi binade x \<le> x \<and> x < 2 powi (binade x + 1)"
proof (cases "1 \<le> x")
  case True
  define n where "n = nat \<lfloor>x\<rfloor>"
  have n: "0 < n" "of_nat n \<le> x" "x < of_nat n + 1"
    using True by (simp_all add: n_def le_floor_iff) linarith+
  from blen_bounds [OF n(1)] have b: "2 ^ (blen n - 1) \<le> n" "n < 2 ^ blen n" by simp_all
  have pos: "0 < blen n" using n(1) by (rule blen_pos)
  have e: "binade x = int (blen n - 1)" using True pos by (simp add: binade_def n_def)
  have lo: "(2::rat) ^ (blen n - 1) \<le> x"
    using two_pow_le_of_nat [OF b(1)] n(2) by linarith
  have hi: "x < (2::rat) ^ blen n"
  proof -
    have "n + 1 \<le> 2 ^ blen n" using b(2) by simp
    from of_nat_le_two_pow [OF this] have "(of_nat n :: rat) + 1 \<le> 2 ^ blen n" by simp
    with n(3) show ?thesis by linarith
  qed
  have "int (blen n - 1) + 1 = int (blen n)" using pos by simp
  with lo hi show ?thesis by (simp add: e power_int_def del: of_nat_diff)
next
  case False
  define m where "m = nat \<lceil>1 / x\<rceil>"
  have inv: "1 < 1 / x" using False assms by simp
  have m: "2 \<le> m" "1 / x \<le> of_nat m" "of_nat m - 1 < 1 / x"
  proof -
    have c: "2 \<le> \<lceil>1 / x\<rceil>" using inv by (simp add: le_ceiling_iff) 
    then show "2 \<le> m" unfolding m_def by linarith
    have "\<lceil>1 / x\<rceil> = int m" using c unfolding m_def by linarith
    then have r: "(of_nat m :: rat) = of_int \<lceil>1 / x\<rceil>" by simp
    show "1 / x \<le> of_nat m" unfolding r by (rule le_of_int_ceiling)
    show "of_nat m - 1 < 1 / x" unfolding r using ceiling_correct [of "1 / x"] by linarith
  qed
  define k where "k = blen (m - 1)"
  have m1: "0 < m - 1" using m(1) by simp
  from blen_bounds [OF m1] have b: "2 ^ (k - 1) \<le> m - 1" "m - 1 < 2 ^ k" by (simp_all add: k_def)
  have kpos: "0 < k" unfolding k_def using m1 by (rule blen_pos)
  have e: "binade x = - int k" using False by (simp add: binade_def m_def k_def)
  have up: "1 / x \<le> 2 ^ k"
  proof -
    have "m \<le> 2 ^ k" using b(2) by simp
    from of_nat_le_two_pow [OF this] m(2) show ?thesis by linarith
  qed
  have dn: "2 ^ (k - 1) < 1 / x"
  proof -
    have "(of_nat (m - 1) :: rat) = of_nat m - 1" using m(1) by (simp add: of_nat_diff)
    with two_pow_le_of_nat [OF b(1)] m(3) show ?thesis by linarith
  qed
  have lo: "2 powi (- int k) \<le> x"
  proof -
    have "1 \<le> x * 2 ^ k" using up assms by (simp add: field_simps)
    then have "1 / 2 ^ k \<le> x" by (simp add: field_simps)
    then show ?thesis by (simp add: power_int_minus field_simps)
  qed
  have hi: "x < 2 powi (- int k + 1)"
  proof -
    obtain j where j: "k = Suc j" using kpos by (cases k) simp_all
    have "(2::rat) powi (- int k + 1) = 2 powi (- int j)" by (simp add: j)
    also have "\<dots> = 1 / 2 ^ j" by (simp add: power_int_minus field_simps)
    finally have eq: "(2::rat) powi (- int k + 1) = 1 / 2 ^ j" .
    have "x * 2 ^ j < 1" using dn assms by (simp add: field_simps j)
    then have "x < 1 / 2 ^ j" by (simp add: field_simps)
    with eq show ?thesis by simp
  qed
  from lo hi show ?thesis by (simp add: e)
qed

lemma binade_eq:
  assumes "2 powi e \<le> x" "x < 2 powi (e + 1)"
  shows "binade x = e"
proof -
  have "0 < x" using assms(1) powi_two_pos [of e] by linarith
  from binade_bounds [OF this] assms show ?thesis
    by (intro binade_unique [of "binade x" x e]) simp_all
qed

lemma dbl_eval:
  assumes "2 powi e \<le> x" "x < 2 powi (e + 1)"
  shows "dbl x = of_int (round_half_even (x / 2 powi (e - 52))) * 2 powi (e - 52)"
proof -
  have "0 < x" using assms(1) powi_two_pos [of e] by linarith
  then show ?thesis by (simp add: dbl_def binade_eq [OF assms] Let_def)
qed

lemma round_half_even_int: "round_half_even (of_int n) = n"
  by (simp add: round_half_even_def)

lemma round_half_even_lower: "of_int a \<le> q \<Longrightarrow> a \<le> round_half_even q"
proof -
  assume "of_int a \<le> q"
  then have "a \<le> \<lfloor>q\<rfloor>" by (simp add: le_floor_iff)
  then show ?thesis by (simp add: round_half_even_def Let_def)
qed

lemma round_half_even_upper: "q < of_int b \<Longrightarrow> round_half_even q \<le> b"
proof -
  assume "q < of_int b"
  then have "\<lfloor>q\<rfloor> < b" by (simp add: floor_less_iff)
  then show ?thesis by (simp add: round_half_even_def Let_def)
qed

lemma dbl_fixed:
  assumes "2 powi e \<le> x" "x < 2 powi (e + 1)" "x / 2 powi (e - 52) = of_int n"
  shows "dbl x = x"
proof -
  have u: "(2::rat) powi (e - 52) \<noteq> 0" using powi_two_pos [of "e - 52"] by simp
  have "dbl x = of_int n * 2 powi (e - 52)"
    by (simp add: dbl_eval [OF assms(1,2)] assms(3) round_half_even_int)
  also have "\<dots> = x" using assms(3) u by (simp add: field_simps)
  finally show ?thesis .
qed

lemma dbl_minus: "dbl (- x) = - dbl x"
  by (simp add: dbl_def Let_def)

lemma dbl_zero [simp]: "dbl 0 = 0"
  by (simp add: dbl_def)

lemma powi_two_split: "(2::rat) powi e = 2 ^ 52 * 2 powi (e - 52)"
proof -
  have "(2::rat) powi e = 2 powi (52 + (e - 52))" by simp
  also have "\<dots> = 2 powi 52 * 2 powi (e - 52)" by (rule power_int_add) simp
  finally show ?thesis by simp
qed

lemma dbl_idem_pos:
  assumes "0 < x"
  shows "dbl (dbl x) = dbl x"
proof -
  define e where "e = binade x"
  define u where "u = (2::rat) powi (e - 52)"
  define n where "n = round_half_even (x / u)"
  have upos: "0 < u" unfolding u_def by (rule powi_two_pos)
  from binade_bounds [OF assms] have b: "2 powi e \<le> x" "x < 2 powi (e + 1)"
    by (simp_all add: e_def)
  have pe: "(2::rat) powi e = 2 ^ 52 * u" unfolding u_def by (rule powi_two_split)
  have pe1: "(2::rat) powi (e + 1) = 2 ^ 53 * u" using pe by (simp add: powi_two_Suc)
  have pe2: "(2::rat) powi (e + 1 + 1) = 2 ^ 54 * u" using pe1 powi_two_Suc [of "e + 1"] by simp
  have xl: "2 ^ 52 * u \<le> x" using b(1) unfolding pe .
  have xu: "x < 2 ^ 53 * u" using b(2) unfolding pe1 .
  have q: "of_int (2 ^ 52) \<le> x / u" "x / u < of_int (2 ^ 53)"
    using xl xu upos by (simp_all add: pos_le_divide_eq pos_divide_less_eq)
  have nb: "2 ^ 52 \<le> n" "n \<le> 2 ^ 53"
    unfolding n_def using round_half_even_lower [OF q(1)] round_half_even_upper [OF q(2)]
    by simp_all
  have y: "dbl x = of_int n * u"
    by (simp add: dbl_eval [OF b] n_def u_def)
  show ?thesis
  proof (cases "n = 2 ^ 53")
    case True
    have yv: "dbl x = 2 ^ 53 * u" by (simp add: y True)
    have u1: "(2::rat) powi (e + 1 - 52) = 2 * u"
      using powi_two_Suc [of "e - 52"] by (simp add: u_def algebra_simps)
    show ?thesis
    proof (rule dbl_fixed [of "e + 1" _ "2 ^ 52"])
      show "2 powi (e + 1) \<le> dbl x" unfolding yv pe1 by simp
      show "dbl x < 2 powi (e + 1 + 1)" unfolding yv pe2 using upos by simp
      show "dbl x / 2 powi (e + 1 - 52) = of_int (2 ^ 52)" unfolding yv u1 using upos by simp
    qed
  next
    case False
    with nb(2) have lt: "n < 2 ^ 53" by simp
    show ?thesis
    proof (rule dbl_fixed [of e _ n])
      have "(of_int (2 ^ 52) :: rat) \<le> of_int n" using nb(1) by (simp only: of_int_le_iff)
      then show "2 powi e \<le> dbl x" unfolding y pe using upos by simp
      have "(of_int n :: rat) < of_int (2 ^ 53)" using lt by (simp only: of_int_less_iff)
      then show "dbl x < 2 powi (e + 1)" unfolding y pe1 using upos by simp
      show "dbl x / 2 powi (e - 52) = of_int n" using upos by (simp add: y u_def)
    qed
  qed
qed

lemma dbl_idem [simp]: "dbl (dbl x) = dbl x"
proof -
  consider "x = 0" | "0 < x" | "x < 0" by linarith
  then show ?thesis
  proof cases
    case 1
    then show ?thesis by simp
  next
    case 2
    then show ?thesis by (rule dbl_idem_pos)
  next
    case 3
    then have "dbl (dbl (- x)) = dbl (- x)" by (intro dbl_idem_pos) simp
    then show ?thesis by (simp add: dbl_minus)
  qed
qed

lemma dbl_of_nat:
  assumes "n \<le> 2 ^ 53"
  shows "dbl (of_nat n) = of_nat n"
proof (cases "n = 0")
  case True
  then show ?thesis by simp
next
  case False
  define x :: rat where "x = of_nat n"
  have xpos: "0 < x" using False by (simp add: x_def)
  have xle: "x \<le> 2 ^ 53" unfolding x_def using of_nat_le_two_pow [OF assms] .
  define e where "e = binade x"
  from binade_bounds [OF xpos] have b: "2 powi e \<le> x" "x < 2 powi (e + 1)"
    by (simp_all add: e_def)
  have e53: "e \<le> 53"
  proof (rule ccontr)
    assume "\<not> e \<le> 53"
    then have "54 \<le> e" by simp
    from powi_two_mono [OF this] b(1) xle show False by simp
  qed
  show ?thesis
  proof (cases "e = 53")
    case True
    with b(1) xle have xv: "x = 2 ^ 53" by simp
    have "dbl x = x"
    proof (rule dbl_fixed [of 53 _ "2 ^ 52"])
      show "2 powi 53 \<le> x" by (simp add: xv)
      show "x < 2 powi (53 + 1)" by (simp add: xv)
      show "x / 2 powi (53 - 52) = of_int (2 ^ 52)" by (simp add: xv)
    qed
    then show ?thesis by (simp add: x_def)
  next
    case False
    with e53 have le: "e \<le> 52" by simp
    define j where "j = nat (52 - e)"
    have pj: "(2::rat) powi (e - 52) = 1 / 2 ^ j"
    proof -
      have "e - 52 = - int j" using le by (simp add: j_def)
      then have "(2::rat) powi (e - 52) = 2 powi (- int j)" by (rule arg_cong)
      also have "\<dots> = 1 / 2 ^ j" by (simp add: power_int_minus field_simps)
      finally show ?thesis .
    qed
    have "dbl x = x"
    proof (rule dbl_fixed [OF b, of "int (n * 2 ^ j)"])
      show "x / 2 powi (e - 52) = of_int (int (n * 2 ^ j))"
        by (simp add: pj x_def)
    qed
    then show ?thesis by (simp add: x_def)
  qed
qed

lemma dbl_numeral [simp]:
  "numeral k \<le> (9007199254740992::nat) \<Longrightarrow> dbl (numeral k) = numeral k"
  using dbl_of_nat [of "numeral k"] by simp

lemma dbl_one [simp]: "dbl 1 = 1"
  using dbl_of_nat [of 1] by simp


lemma dbl_neg_numeral [simp]:
  "numeral k \<le> (9007199254740992::nat) \<Longrightarrow> dbl (- numeral k) = - numeral k"
  by (simp add: dbl_minus)

lemmas dbl_compute = round_half_even_def Let_def power_int_minus floor_rat_numeral

lemma fmul_zero [simp]: "fmul x 0 = 0" "fmul 0 x = 0"
  by (simp_all add: fmul_def)

lemma fadd_zero [simp]: "fadd (dbl x) 0 = dbl x" "fadd 0 (dbl x) = dbl x"
  by (simp_all add: fadd_def)

lemma fee_steps:
  "fdiv 310 100 = 6980579422424269 / 2251799813685248"
  "fadd 62 (6980579422424269 / 2251799813685248) = 2290502622982963 / 35184372088832"
  "fdiv 5 100 = 3602879701896397 / 72057594037927936"
  "fadd 1 (3602879701896397 / 72057594037927936) = 4728779608739021 / 4503599627370496"
  "fmul 62 (4728779608739021 / 4503599627370496) = 4581005245965927 / 70368744177664"
  unfolding float_defs
  by (subst dbl_eval [of 1], simp_all add: dbl_compute)
     (subst dbl_eval [of 6], simp_all add: dbl_compute,
      subst dbl_eval [of "-5"], simp_all add: dbl_compute,
      subst dbl_eval [of 0], simp_all add: dbl_compute,
      subst dbl_eval [of 6], simp_all add: dbl_compute)

lemma overtime_default_steps:
  "dbl (6/5) = 5404319552844595 / 4503599627370496"
  "fmul 150 (5404319552844595 / 4503599627370496) = 180"
  unfolding float_defs
  by (subst dbl_eval [of 0], simp_all add: dbl_compute)
     (subst dbl_eval [of 7], simp_all add: dbl_compute)

lemma half_steps:
  "fdiv 2350 100 = 47/2" "fadd 235 (47/2) = 517/2"
  unfolding float_defs
  by (subst dbl_eval [of 4], simp_all add: dbl_compute)
     (subst dbl_eval [of 8], simp_all add: dbl_compute)

section \<open>Properties of fares and completion\<close>

lemma ride_fare_regular:
  assumes "booking_type r \<noteq> rental"
  shows "fst (ride_fare r fm km mins)
           = (let subtotal = fadd (fadd (base_fare fm) (fmul km (per_km_rate fm)))
                               (fmul mins (case per_minute_rate fm of None \<Rightarrow> 0 | Some v \<Rightarrow> v))
              in max (fadd subtotal (fdiv (fmul subtotal (platform_fee_percent fm)) 100))
                     (minimum_fare fm))"
    and "map_of (snd (ride_fare r fm km mins)) ''total_fare'' = Some (fst (ride_fare r fm km mins))"
  using assms by (simp_all add: ride_fare_def Let_def or_default_def split: option.splits)

lemma select_single_one: "filter P tbl = [r] \<Longrightarrow> select_single P tbl = Reply r"
  by (simp add: select_single_def)

lemma complete_quiet:
  assumes "faults w = []" and "filter (\<lambda>x. ride_id x = rid) (rides w) = [r]"
    and "filter (fare_applies r) (fare_matrix w) = [fm]"
  shows "fst (completeRide endTime rid w)
           = Returned (Some \<lparr>cd_distance = actualDistance w, cd_duration = actualDuration endTime w,
                cd_fareBreakdown = snd (ride_fare r fm (actualDistance w) (actualDuration endTime w)),
                cd_booking_type = booking_type r, cd_rental_hours = rental_hours r\<rparr>)"
    and "rides (snd (completeRide endTime rid w))
           = update_where (\<lambda>x. ride_id x = rid)
               (complete_row (fst (ride_fare r fm (actualDistance w) (actualDuration endTime w)))
                  (actualDistance w) (actualDuration endTime w)) (rides w)"
  using assms
  by (simp_all add: completeRide_def action_defs setter_defs select_ride_single_def
      select_fare_single_def update_ride_single_def update_driver_def store_call_quiet
      select_single_one update_single_one actualDuration_def actualDistance_def
      resetTripTracking_def updateDriverStatusFromRide_def
      split: prod.splits option.splits)

lemma js_round_int: "js_round (of_int n) = n"
  unfolding js_round_def by (rule floor_unique) simp_all

lemma js_round_30: "js_round 30 = 30"
  using js_round_int [of 30] by simp

lemma trip_measures:
  assumes "tripStartTime w = Some 0" and "totalDistanceTraveled w = 25/2"
  shows "actualDistance w = 25/2" and "actualDuration 1800000 w = 30"
  using assms by (simp_all add: actualDistance_def actualDuration_def js_round_30 float_defs)

lemma stored_fare:
  assumes "filter (\<lambda>x. ride_id x = rid) tbl = [r]"
  shows "map fare_amount (filter (\<lambda>x. ride_id x = rid)
           (update_where (\<lambda>x. ride_id x = rid) (complete_row f d m) tbl)) = [Some f]"
proof -
  have "filter (\<lambda>x. ride_id x = rid) (update_where (\<lambda>x. ride_id x = rid) (complete_row f d m) xs)
          = map (complete_row f d m) (filter (\<lambda>x. ride_id x = rid) xs)" for xs
    by (induction xs) (simp_all add: update_where_def complete_row_def)
  then show ?thesis using assms by (simp add: complete_row_def)
qed

text \<open>
  C5 as stated fails in the arithmetic of the language: the code adds the fee to the
  subtotal, \<open>subtotal + subtotal * platformFeePercent / 100\<close>, and the claim multiplies the
  subtotal by \<open>1 + platformFeePercent / 100\<close>. Under a rule with base 62 and a fee of five
  percent (no rate per kilometre or minute, no minimum) the trip of 12.5 km and 30 minutes
  is completed with the total \<^verbatim>\<open>65.1\<close>, the binary64 value
  \<open>2290502622982963 / 2\<^sup>4\<^sup>5\<close>, and the formula of the claim gives
  \<^verbatim>\<open>65.10000000000001\<close>, the next binary64 value \<open>4581005245965927 / 2\<^sup>4\<^sup>6\<close>.
\<close>

theorem regular_total_fare_counterexample:
  "booking_type (example_ride\<lparr>status := in_progress, pickup_otp := None\<rparr>) = regular
   \<and> fst (ride_fare (example_ride\<lparr>status := in_progress, pickup_otp := None\<rparr>) fee_rule (25/2) 30)
       = 2290502622982963 / 35184372088832
   \<and> map fare_amount (rides (snd (completeRide 1800000 ''r1'' fee_world)))
       = [Some (2290502622982963 / 35184372088832)]
   \<and> spec_regular_total
         (spec_subtotal (base_fare fee_rule) (25/2) (per_km_rate fee_rule) 30 0)
         (platform_fee_percent fee_rule) (minimum_fare fee_rule)
       = 4581005245965927 / 70368744177664"
proof -
  let ?r = "example_ride\<lparr>status := in_progress, pickup_otp := None\<rparr>"
  have h: "faults fee_world = []"
    "filter (\<lambda>x. ride_id x = ''r1'') (rides fee_world) = [?r]"
    "filter (fare_applies ?r) (fare_matrix fee_world) = [fee_rule]"
    by (simp_all add: fee_world_def trip_world_def example_world_def example_ride_def
        fee_rule_def fare_applies_def)
  have r: "rides fee_world = [?r]"
    by (simp add: fee_world_def trip_world_def example_world_def)
  have ops: "fadd 62 0 = 62" "fmul 62 5 = 310"
    by (simp_all add: float_defs)
  have f: "fst (ride_fare ?r fee_rule (25/2) 30) = 2290502622982963 / 35184372088832"
    by (simp add: ride_fare_def Let_def example_ride_def fee_rule_def or_default_def ops fee_steps)
  have s: "spec_regular_total
         (spec_subtotal (base_fare fee_rule) (25/2) (per_km_rate fee_rule) 30 0)
         (platform_fee_percent fee_rule) (minimum_fare fee_rule)
       = 4581005245965927 / 70368744177664"
    by (simp add: spec_regular_total_def spec_subtotal_def fee_rule_def ops fee_steps)
  have m: "actualDistance fee_world = 25/2" "actualDuration 1800000 fee_world = 30"
    by (rule trip_measures; simp add: fee_world_def trip_world_def example_world_def)+
  have i: "ride_id ?r = ''r1''"
    by (simp add: example_ride_def)
  have c: "map fare_amount (rides (snd (completeRide 1800000 ''r1'' fee_world)))
       = [Some (2290502622982963 / 35184372088832)]"
    using i by (simp add: complete_quiet [OF h] m f r update_where_def complete_row_def)
  have b: "booking_type ?r = regular"
    by (simp add: example_ride_def)
  from b f c s show ?thesis by (intro conjI)
qed

text \<open>
  C5, as amended. For a ride of the regular category the fare block yields
  \<open>max (subtotal + subtotal * platformFeePercent / 100) minimumFare\<close> with
  \<open>subtotal = base + distance * perKmRate + duration * perMinuteRate\<close>, a missing rate
  per minute counting as 0, evaluated from left to right in the arithmetic of the
  language; when the fee is 0 this is \<open>max subtotal minimumFare\<close> and agrees with the
  formula of the claim. When the store answers and the ride and its fare row are found,
  \<open>completeRide\<close> returns this total in the breakdown and writes it to the row. The
  witnesses are the trip of 12.5 km and 30 minutes under the rule
  \<open>{base 50, perKm 10, perMin 0, fee 0, minimum 100}\<close>, 175, and under the rule
  \<open>{base 50, perKm 10, perMin 2, fee 10, minimum 100}\<close>, 258.5.
\<close>

theorem regular_completion_total_fare:
  assumes "faults w = []" and "filter (\<lambda>x. ride_id x = rid) (rides w) = [r]"
    and "booking_type r = regular" and "filter (fare_applies r) (fare_matrix w) = [fm]"
  shows "(let subtotal = fadd (fadd (base_fare fm) (fmul km (per_km_rate fm)))
                           (fmul mins (case per_minute_rate fm of None \<Rightarrow> 0 | Some v \<Rightarrow> v))
          in fst (ride_fare r fm km mins)
               = max (fadd subtotal (fdiv (fmul subtotal (platform_fee_percent fm)) 100))
                     (minimum_fare fm)
             \<and> (platform_fee_percent fm = 0 \<longrightarrow>
                  fst (ride_fare r fm km mins) = max subtotal (minimum_fare fm)
                  \<and> fst (ride_fare r fm km mins)
                      = spec_regular_total
                          (spec_subtotal (base_fare fm) km (per_km_rate fm) mins
                             (case per_minute_rate fm of None \<Rightarrow> 0 | Some v \<Rightarrow> v))
                          (platform_fee_percent fm) (minimum_fare fm)))
         \<and> (\<exists>cd. fst (completeRide endTime rid w) = Returned (Some cd)
                \<and> map_of (cd_fareBreakdown cd) ''total_fare''
                    = Some (fst (ride_fare r fm (actualDistance w) (actualDuration endTime w))))
         \<and> map fare_amount (filter (\<lambda>x. ride_id x = rid) (rides (snd (completeRide endTime rid w))))
             = [Some (fst (ride_fare r fm (actualDistance w) (actualDuration endTime w)))]"
proof -
  have nr: "booking_type r \<noteq> rental" using assms(3) by simp
  define s where "s = fadd (fadd (base_fare fm) (fmul km (per_km_rate fm)))
                        (fmul mins (case per_minute_rate fm of None \<Rightarrow> 0 | Some v \<Rightarrow> v))"
  have total: "fst (ride_fare r fm km mins)
                 = max (fadd s (fdiv (fmul s (platform_fee_percent fm)) 100)) (minimum_fare fm)"
    using ride_fare_regular(1) [OF nr, of fm km mins] by (simp add: Let_def s_def)
  have rounded: "dbl s = s"
    by (simp add: s_def fadd_def)
  have no_fee: "fadd s (fdiv (fmul s 0) 100) = s"
    by (simp add: float_defs rounded)
  have claim: "spec_regular_total s 0 (minimum_fare fm) = max s (minimum_fare fm)"
    by (simp add: spec_regular_total_def float_defs rounded)
  have first: "fst (ride_fare r fm km mins)
               = max (fadd s (fdiv (fmul s (platform_fee_percent fm)) 100)) (minimum_fare fm)
             \<and> (platform_fee_percent fm = 0 \<longrightarrow>
                  fst (ride_fare r fm km mins) = max s (minimum_fare fm)
                  \<and> fst (ride_fare r fm km mins)
                      = spec_regular_total
                          (spec_subtotal (base_fare fm) km (per_km_rate fm) mins
                             (case per_minute_rate fm of None \<Rightarrow> 0 | Some v \<Rightarrow> v))
                          (platform_fee_percent fm) (minimum_fare fm))"
    using total no_fee claim by (simp add: spec_subtotal_def s_def [symmetric])
  have second: "\<exists>cd. fst (completeRide endTime rid w) = Returned (Some cd)
                \<and> map_of (cd_fareBreakdown cd) ''total_fare''
                    = Some (fst (ride_fare r fm (actualDistance w) (actualDuration endTime w)))"
    using ride_fare_regular(2) [OF nr, of fm]
    by (simp add: complete_quiet [OF assms(1,2,4)])
  have third: "map fare_amount (filter (\<lambda>x. ride_id x = rid)
                 (rides (snd (completeRide endTime rid w))))
             = [Some (fst (ride_fare r fm (actualDistance w) (actualDuration endTime w)))]"
    by (simp add: complete_quiet [OF assms(1,2,4)] stored_fare [OF assms(2)])
  from first second third show ?thesis
    unfolding Let_def s_def by blast
qed

theorem regular_completion_total_fare_witness:
  "faults trip_world = [] \<and> faults timed_world = []
   \<and> filter (\<lambda>x. ride_id x = ''r1'') (rides trip_world)
       = [example_ride\<lparr>status := in_progress, pickup_otp := None\<rparr>]
   \<and> filter (\<lambda>x. ride_id x = ''r1'') (rides timed_world)
       = [example_ride\<lparr>status := in_progress, pickup_otp := None\<rparr>]
   \<and> filter (fare_applies (example_ride\<lparr>status := in_progress, pickup_otp := None\<rparr>))
         (fare_matrix trip_world) = [example_fare]
   \<and> filter (fare_applies (example_ride\<lparr>status := in_progress, pickup_otp := None\<rparr>))
         (fare_matrix timed_world) = [timed_fare]
   \<and> actualDistance trip_world = 25/2 \<and> actualDuration 1800000 trip_world = 30
   \<and> actualDistance timed_world = 25/2 \<and> actualDuration 1800000 timed_world = 30
   \<and> platform_fee_percent example_fare = 0 \<and> per_minute_rate timed_fare = Some 2
   \<and> fst (ride_fare (example_ride\<lparr>status := in_progress, pickup_otp := None\<rparr>) example_fare (25/2) 30)
       = 175
   \<and> spec_regular_total (spec_subtotal 50 (25/2) 10 30 0) 0 100 = 175
   \<and> map fare_amount (filter (\<lambda>x. ride_id x = ''r1'')
         (rides (snd (completeRide 1800000 ''r1'' trip_world)))) = [Some 175]
   \<and> fst (ride_fare (example_ride\<lparr>status := in_progress, pickup_otp := None\<rparr>) timed_fare (25/2) 30)
       = 517/2
   \<and> map fare_amount (filter (\<lambda>x. ride_id x = ''r1'')
         (rides (snd (completeRide 1800000 ''r1'' timed_world)))) = [Some (517/2)]"
proof -
  let ?r = "example_ride\<lparr>status := in_progress, pickup_otp := None\<rparr>"
  have h: "faults trip_world = []"
    "filter (\<lambda>x. ride_id x = ''r1'') (rides trip_world) = [?r]"
    "booking_type ?r = regular"
    "filter (fare_applies ?r) (fare_matrix trip_world) = [example_fare]"
    by (simp_all add: trip_world_def example_world_def example_ride_def example_fare_def
        fare_applies_def)
  have h': "faults timed_world = []"
    "filter (\<lambda>x. ride_id x = ''r1'') (rides timed_world) = [?r]"
    "booking_type ?r = regular"
    "filter (fare_applies ?r) (fare_matrix timed_world) = [timed_fare]"
    by (simp_all add: timed_world_def timed_fare_def trip_world_def example_world_def
        example_ride_def example_fare_def fare_applies_def)
  have m: "actualDistance trip_world = 25/2" "actualDuration 1800000 trip_world = 30"
    by (rule trip_measures; simp add: trip_world_def example_world_def)+
  have m': "actualDistance timed_world = 25/2" "actualDuration 1800000 timed_world = 30"
    by (rule trip_measures; simp add: timed_world_def trip_world_def example_world_def)+
  have d: "base_fare example_fare = 50" "per_km_rate example_fare = 10"
    "per_minute_rate example_fare = Some 0" "platform_fee_percent example_fare = 0"
    "minimum_fare example_fare = 100"
    "base_fare timed_fare = 50" "per_km_rate timed_fare = 10"
    "per_minute_rate timed_fare = Some 2" "platform_fee_percent timed_fare = 10"
    "minimum_fare timed_fare = 100"
    by (simp_all add: example_fare_def timed_fare_def)
  have ops: "fmul (25/2) 10 = 125" "fadd 50 125 = 175" "fmul 30 2 = 60" "fadd 175 60 = 235"
    "fmul 235 10 = 2350" "fadd 175 0 = 175"
    by (simp_all add: float_defs)
  note t = regular_completion_total_fare [OF h, of "25/2" 30 1800000]
  note t' = regular_completion_total_fare [OF h', of "25/2" 30 1800000]
  from t have a: "fst (ride_fare ?r example_fare (25/2) 30) = 175"
    by (simp add: Let_def d ops)
  from t a have s: "spec_regular_total (spec_subtotal 50 (25/2) 10 30 0) 0 100 = 175"
    by (simp add: Let_def d)
  from t m a have b: "map fare_amount (filter (\<lambda>x. ride_id x = ''r1'')
         (rides (snd (completeRide 1800000 ''r1'' trip_world)))) = [Some 175]"
    by simp
  from t' have a': "fst (ride_fare ?r timed_fare (25/2) 30) = 517/2"
    by (simp add: Let_def d ops half_steps)
  from t' m' a' have b': "map fare_amount (filter (\<lambda>x. ride_id x = ''r1'')
         (rides (snd (completeRide 1800000 ''r1'' timed_world)))) = [Some (517/2)]"
    by simp
  from h(1,2,4) h'(1,2,4) m m' d(4,8) a s b a' b' show ?thesis by (intro conjI)
qed

text \<open>
  C3. On a ride in progress whose drop code is \<^verbatim>\<open>2222\<close>, \<open>completeRide\<close> of the realtime
  provider succeeds with a total of 175 and sets the status to \<^verbatim>\<open>completed\<close>, and the
  drop code is still \<^verbatim>\<open>2222\<close> afterwards; the polling provider clears it on the same
  input.
\<close>

theorem completeRide_leaves_drop_otp:
  "map status (rides trip_world) = [in_progress]
   \<and> map drop_otp (rides trip_world) = [Some ''2222'']
   \<and> fst (completeRide 1800000 ''r1'' trip_world)
       = Returned (Some \<lparr>cd_distance = 25/2, cd_duration = 30,
           cd_fareBreakdown =
             [(''base_fare'', 50), (''distance_fare'', 125), (''time_fare'', 0),
              (''platform_fee'', 0), (''minimum_fare'', 100), (''total_fare'', 175),
              (''per_km_rate'', 10), (''per_minute_rate'', 0)],
           cd_booking_type = regular, cd_rental_hours = None\<rparr>)
   \<and> map status (rides (snd (completeRide 1800000 ''r1'' trip_world))) = [completed]
   \<and> map drop_otp (rides (snd (completeRide 1800000 ''r1'' trip_world))) = [Some ''2222'']
   \<and> map drop_otp (rides (snd (completeRide_p1 ''r1'' trip_world))) = [None]"
proof -
  let ?r = "example_ride\<lparr>status := in_progress, pickup_otp := None\<rparr>"
  have h: "faults trip_world = []"
    "filter (\<lambda>x. ride_id x = ''r1'') (rides trip_world) = [?r]"
    "filter (fare_applies ?r) (fare_matrix trip_world) = [example_fare]"
    by (simp_all add: trip_world_def example_world_def example_ride_def example_fare_def
        fare_applies_def)
  have m: "actualDistance trip_world = 25/2" "actualDuration 1800000 trip_world = 30"
    by (rule trip_measures; simp add: trip_world_def example_world_def)+
  have ops: "fmul (25/2) 10 = 125" "fadd 50 125 = 175" "fadd 175 0 = 175"
    "fdiv 0 100 = 0"
    by (simp_all add: float_defs)
  have f: "ride_fare ?r example_fare (25/2) 30 =
             (175, [(''base_fare'', 50), (''distance_fare'', 125), (''time_fare'', 0),
              (''platform_fee'', 0), (''minimum_fare'', 100), (''total_fare'', 175),
              (''per_km_rate'', 10), (''per_minute_rate'', 0)])"
    by (simp add: ride_fare_def Let_def example_ride_def example_fare_def or_default_def ops)
  have r: "rides trip_world = [?r]"
    by (simp add: trip_world_def example_world_def)
  have p1: "map drop_otp (rides (snd (completeRide_p1 ''r1'' trip_world))) = [None]"
    by (simp add: completeRide_p1_def action_defs setter_defs store_defs update_single_def
        update_driver_def driver_ident_def trip_world_def example_world_def example_ride_def
        example_driver_def)
  have fields: "ride_id ?r = ''r1''" "drop_otp ?r = Some ''2222''" "status ?r = in_progress"
    "booking_type ?r = regular" "rental_hours ?r = None"
    by (simp_all add: example_ride_def)
  show ?thesis
    using p1 fields
    by (simp add: complete_quiet [OF h] m f r update_where_def complete_row_def)
qed

text \<open>
  C6 as stated fails for a rental ride completed by \<open>completeRide\<close>: booked for four
  hours at 150 with base 100 and a fee of ten percent, the total is 760 after 300 minutes
  and after 60 minutes alike, where the formula of the claim (overtime rate 180, no
  allowance, no extra kilometres) gives 880 and 700.
\<close>

theorem rental_ride_total_counterexample:
  "booking_type rental_ride = rental \<and> rental_hours rental_ride = Some 4
   \<and> fst (ride_fare rental_ride rental_rule 5 300) = 760
   \<and> spec_rental_total 100 4 150 300 180 5 10 8 0 = 880
   \<and> fst (ride_fare rental_ride rental_rule 5 60) = 760
   \<and> spec_rental_total 100 4 150 60 180 5 10 8 0 = 700"
proof -
  have ops: "fmul 4 150 = 600" "fadd 100 600 = 700" "fmul 600 10 = 6000" "fdiv 6000 100 = 60"
    "fadd 700 60 = 760" "fdiv 300 60 = 5" "fdiv 60 60 = 1" "fsub 5 4 = 1" "fsub 1 4 = - 3"
    "fmul 1 180 = 180" "fadd 700 180 = 880" "fmul 4 10 = 40" "fsub 5 40 = - 35"
    "fmul 0 8 = 0" "fadd 880 0 = 880" "fmul 0 180 = 0" "fadd 700 0 = 700"
    by (simp_all add: float_defs)
  have a: "fst (ride_fare rental_ride rental_rule km mins) = 760" for km mins
    by (simp add: ride_fare_def Let_def rental_ride_def rental_rule_def example_ride_def
        or_default_def ops)
  have b: "spec_rental_total 100 4 150 300 180 5 10 8 0 = 880"
    "spec_rental_total 100 4 150 60 180 5 10 8 0 = 700"
    by (simp_all add: spec_rental_total_def spec_overtime_hours_def spec_extra_km_def ops)
  show ?thesis
    using a b by (simp add: rental_ride_def)
qed

text \<open>
  C6, as amended. For a rental scheduled booking completed by \<open>handleCompleteTrip\<close> the
  total is the formula of the claim with base 0, the booked hours defaulting to 4, the
  hourly rate to 150, the overtime rate to 1.2 times the hourly rate, the kilometre limit
  to 10 per hour, the extra-kilometre rate to 8 and the allowance to 0, a value that is
  missing or 0 being replaced by its default and any other value kept; overtime hours and
  extra kilometres are those of the claim, and 300 minutes on 4 booked hours are one
  overtime hour. A booking without booked hours under a fare row with every column missing
  costs 860 after 300 minutes and 50 km: four hours at 150, one overtime hour at 180 and
  ten extra kilometres at 8. For a rental ride completed by \<open>completeRide\<close> the total is
  \<open>base + hours * hourlyRate\<close> plus the platform fee on the hourly fare.
\<close>

theorem rental_completion_totals:
  "fst (scheduled_fare rental bookedHours fm actualMinutes km hour)
     = spec_rental_total 0 (or_default bookedHours 4) (or_default (sf_hourly_rate fm) 150)
         actualMinutes
         (or_default (sf_overtime_rate fm)
            (fmul (or_default (sf_hourly_rate fm) 150) (dbl (12/10))))
         km (or_default (sf_km_limit_per_hour fm) 10) (or_default (sf_extra_km_rate fm) 8)
         (or_default (sf_driver_allowance_per_day fm) 0)
   \<and> or_default None d = d \<and> or_default (Some 0) d = d
   \<and> (v \<noteq> 0 \<longrightarrow> or_default (Some v) d = v)
   \<and> fst (scheduled_fare rental None missing_fares_row 300 50 hour) = 860
   \<and> map_of (snd (scheduled_fare rental bookedHours fm actualMinutes km hour)) ''overtime_hours''
       = Some (spec_overtime_hours actualMinutes (or_default bookedHours 4))
   \<and> map_of (snd (scheduled_fare rental bookedHours fm actualMinutes km hour)) ''extra_km''
       = Some (spec_extra_km km (or_default bookedHours 4) (or_default (sf_km_limit_per_hour fm) 10))
   \<and> map_of (snd (scheduled_fare rental bookedHours fm actualMinutes km hour)) ''base_fare'' = Some 0
   \<and> spec_overtime_hours 300 4 = 1
   \<and> (booking_type r = rental \<longrightarrow>
        fst (ride_fare r f km mins)
          = fadd (fadd (base_fare f)
                    (fmul (or_default (rental_hours r) 4) (or_default (hourly_rate f) 150)))
              (fdiv (fmul (fmul (or_default (rental_hours r) 4) (or_default (hourly_rate f) 150))
                      (platform_fee_percent f)) 100))"
proof -
  have ops: "fmul 4 150 = 600" "fdiv 300 60 = 5" "fsub 5 4 = 1" "fmul 1 180 = 180"
    "fmul 4 10 = 40" "fsub 50 40 = 10" "fmul 10 8 = 80" "fadd 600 180 = 780"
    "fadd 780 80 = 860" "fadd 860 0 = 860"
    by (simp_all add: float_defs)
  have general: "fst (scheduled_fare rental bookedHours fm actualMinutes km hour)
     = spec_rental_total 0 (or_default bookedHours 4) (or_default (sf_hourly_rate fm) 150)
         actualMinutes
         (or_default (sf_overtime_rate fm)
            (fmul (or_default (sf_hourly_rate fm) 150) (dbl (12/10))))
         km (or_default (sf_km_limit_per_hour fm) 10) (or_default (sf_extra_km_rate fm) 8)
         (or_default (sf_driver_allowance_per_day fm) 0)"
    by (simp add: scheduled_fare_def Let_def spec_rental_total_def spec_overtime_hours_def
        spec_extra_km_def fadd_def fmul_def)
  have defaults: "or_default None d = d" "or_default (Some 0) d = d"
    "v \<noteq> 0 \<longrightarrow> or_default (Some v) d = v"
    by (simp_all add: or_default_def)
  have missing: "fst (scheduled_fare rental None missing_fares_row 300 50 hour) = 860"
    by (simp add: scheduled_fare_def Let_def missing_fares_row_def or_default_def
        overtime_default_steps ops)
  have parts: "map_of (snd (scheduled_fare rental bookedHours fm actualMinutes km hour)) ''overtime_hours''
       = Some (spec_overtime_hours actualMinutes (or_default bookedHours 4))"
    "map_of (snd (scheduled_fare rental bookedHours fm actualMinutes km hour)) ''extra_km''
       = Some (spec_extra_km km (or_default bookedHours 4) (or_default (sf_km_limit_per_hour fm) 10))"
    "map_of (snd (scheduled_fare rental bookedHours fm actualMinutes km hour)) ''base_fare'' = Some 0"
    by (simp_all add: scheduled_fare_def Let_def spec_overtime_hours_def spec_extra_km_def)
  have hour: "spec_overtime_hours 300 4 = 1"
    by (simp add: spec_overtime_hours_def ops)
  have ride: "booking_type r = rental \<longrightarrow>
        fst (ride_fare r f km mins)
          = fadd (fadd (base_fare f)
                    (fmul (or_default (rental_hours r) 4) (or_default (hourly_rate f) 150)))
              (fdiv (fmul (fmul (or_default (rental_hours r) 4) (or_default (hourly_rate f) 150))
                      (platform_fee_percent f)) 100)"
    by (simp add: ride_fare_def Let_def)
  from general defaults missing parts hour ride show ?thesis
    by blast
qed

theorem rental_completion_totals_witness:
  "booking_type rental_ride = rental
   \<and> fst (ride_fare rental_ride rental_rule 50 300) = 760
   \<and> fst (scheduled_fare rental (Some 4) rental_fares_row 300 50 12) = 1060
   \<and> map_of (snd (scheduled_fare rental (Some 4) rental_fares_row 300 50 12)) ''overtime_hours''
       = Some 1
   \<and> or_default (Some 200) 0 = 200
   \<and> fst (scheduled_fare rental None missing_fares_row 300 50 12) = 860
   \<and> spec_rental_total 0 4 150 300 180 50 10 8 0 = 860
   \<and> map_of (snd (scheduled_fare rental None missing_fares_row 300 50 12)) ''extra_km''
       = Some 10"
proof -
  have h: "booking_type rental_ride = rental"
    by (simp add: rental_ride_def)
  note t = rental_completion_totals
    [where bookedHours = "Some 4" and fm = rental_fares_row and actualMinutes = 300
       and km = 50 and hour = 12 and d = 0 and v = 200 and r = rental_ride
       and f = rental_rule and mins = 300]
  note u = rental_completion_totals
    [where bookedHours = None and fm = missing_fares_row and actualMinutes = 300
       and km = 50 and hour = 12 and d = 0 and v = 200 and r = rental_ride
       and f = rental_rule and mins = 300]
  have ops: "fmul 4 150 = 600" "fdiv 300 60 = 5" "fsub 5 4 = 1" "fmul 1 180 = 180"
    "fmul 4 10 = 40" "fsub 50 40 = 10" "fmul 10 8 = 80" "fadd 600 180 = 780"
    "fadd 780 80 = 860" "fadd 860 200 = 1060" "fadd 860 0 = 860" "fadd 0 600 = 600"
    "fadd 100 600 = 700" "fmul 600 10 = 6000" "fdiv 6000 100 = 60" "fadd 700 60 = 760"
    by (simp_all add: float_defs)
  have v: "spec_rental_total 0 4 150 300 180 50 10 8 200 = 1060"
    by (simp add: spec_rental_total_def spec_overtime_hours_def spec_extra_km_def ops)
  have d: "or_default (Some 4) 4 = 4" "or_default (sf_hourly_rate rental_fares_row) 150 = 150"
    "or_default (sf_overtime_rate rental_fares_row) x = 180"
    "or_default (sf_km_limit_per_hour rental_fares_row) 10 = 10"
    "or_default (sf_extra_km_rate rental_fares_row) 8 = 8"
    "or_default (sf_driver_allowance_per_day rental_fares_row) 0 = 200"
    "or_default (rental_hours rental_ride) 4 = 4" "or_default (hourly_rate rental_rule) 150 = 150"
    "base_fare rental_rule = 100" "platform_fee_percent rental_rule = 10" for x
    by (simp_all add: or_default_def rental_fares_row_def rental_ride_def rental_rule_def)
  have e: "or_default None x = x" "or_default (sf_hourly_rate missing_fares_row) 150 = 150"
    "or_default (sf_overtime_rate missing_fares_row) x = x"
    "or_default (sf_km_limit_per_hour missing_fares_row) 10 = 10"
    "or_default (sf_extra_km_rate missing_fares_row) 8 = 8"
    "or_default (sf_driver_allowance_per_day missing_fares_row) 0 = 0" for x
    by (simp_all add: or_default_def missing_fares_row_def)
  from t h d have a: "fst (ride_fare rental_ride rental_rule 50 300) = 760"
    by (simp add: ops)
  from t d v have b: "fst (scheduled_fare rental (Some 4) rental_fares_row 300 50 12) = 1060"
    by simp
  from t d have c: "map_of (snd (scheduled_fare rental (Some 4) rental_fares_row 300 50 12))
       ''overtime_hours'' = Some 1"
    by simp
  from t have p: "or_default (Some 200) 0 = 200"
    by simp
  from u have m: "fst (scheduled_fare rental None missing_fares_row 300 50 12) = 860"
    by simp
  from u m have s: "spec_rental_total 0 4 150 300 180 50 10 8 0 = 860"
    by (simp add: e overtime_default_steps)
  from u have x: "map_of (snd (scheduled_fare rental None missing_fares_row 300 50 12))
       ''extra_km'' = Some 10"
    by (simp add: e spec_extra_km_def ops)
  from h a b c p m s x show ?thesis by (intro conjI)
qed

section \<open>Properties of acceptance and reconciliation\<close>

subsection \<open>Actions that do not write the rides\<close>

lemma frame_ret: "frame (ret x)"
  by (simp add: frame_def ret_def)

lemma frame_throw: "frame throw"
  by (simp add: frame_def throw_def)

lemma frame_await:
  assumes "frame m" and "\<And>x. frame (f x)"
  shows "frame (await m f)"
  unfolding frame_def
proof
  fix w
  obtain r w1 where m: "m w = (r, w1)" by (cases "m w")
  with assms(1) have "rides w1 = rides w" by (auto simp: frame_def dest: spec [of _ w])
  with m assms(2) show "rides (snd (await m f w)) = rides w"
    by (cases r) (auto simp: await_def frame_def)
qed

lemma frame_try_catch:
  assumes "frame m" and "frame h"
  shows "frame (try_catch m h)"
  unfolding frame_def
proof
  fix w
  obtain r w1 where m: "m w = (r, w1)" by (cases "m w")
  with assms(1) have "rides w1 = rides w" by (auto simp: frame_def dest: spec [of _ w])
  with m assms(2) show "rides (snd (try_catch m h w)) = rides w"
    by (cases r) (auto simp: try_catch_def frame_def)
qed

lemma frame_setting:
  assumes "frame m" and "\<And>w. rides (f w) = rides w"
  shows "frame (setting f m)"
  using assms by (simp add: frame_def setting_def)

lemma frame_reading:
  assumes "\<And>v. frame (f v)"
  shows "frame (reading g f)"
  using assms by (simp add: frame_def reading_def)

lemma frame_store_call:
  assumes "\<And>w. rides (snd (q w)) = rides w"
  shows "frame (store_call q)"
  unfolding frame_def
proof
  fix w
  show "rides (snd (store_call q w)) = rides w"
    using assms [of "w\<lparr>faults := tl (faults w)\<rparr>"]
    by (cases "next_fault w") (auto simp: store_call_def Let_def split: prod.splits)
qed

lemma frame_update_driver: "frame (update_driver i upd)"
  unfolding update_driver_def by (rule frame_store_call) simp

lemma frame_logged_read: "frame logged_read"
  unfolding logged_read_def by (rule frame_store_call) simp

lemma frame_debugQueries: "frame (debugQueries i)"
  unfolding debugQueries_def select_driver_single_def
  by (intro frame_await frame_store_call frame_ret)
     (simp_all add: frame_logged_read frame_ret split: reply.splits)

lemma frame_startLocationSharing: "frame startLocationSharing"
  unfolding startLocationSharing_def upsert_location_def insert_location_def update_location_def
  apply (rule frame_reading)
  apply (simp split: prod.splits option.splits add: frame_ret)
  apply (intro allI impI conjI frame_try_catch frame_await frame_store_call frame_ret)
  apply (simp_all split: reply.splits option.splits add: frame_ret)
  apply (intro allI impI conjI frame_try_catch frame_await frame_store_call frame_ret)
  apply (simp_all split: reply.splits option.splits add: frame_ret)
  apply (intro allI impI conjI frame_try_catch frame_await frame_store_call frame_ret)
  apply (simp_all split: reply.splits option.splits add: frame_ret)
  done

lemma frame_updateDriverStatus: "frame (updateDriverStatus st)"
  unfolding updateDriverStatus_def
  apply (rule frame_reading)
  apply (simp add: frame_ret)
  apply (intro impI frame_try_catch frame_await frame_update_driver frame_throw)
  apply (simp split: reply.splits add: frame_ret frame_throw)
  done

subsection \<open>Pre- and postconditions\<close>

lemma triple_ret: "(\<And>w. P w \<Longrightarrow> Q (Returned x) w) \<Longrightarrow> triple P (ret x) Q"
  by (simp add: triple_def ret_def)

lemma triple_await:
  assumes "triple P m M" and "\<And>x. triple (M (Returned x)) (f x) Q"
    and "\<And>w. M Raised w \<Longrightarrow> Q Raised w"
  shows "triple P (await m f) Q"
  unfolding triple_def
proof (intro allI impI)
  fix w assume "P w"
  obtain r w1 where m: "m w = (r, w1)" by (cases "m w")
  with assms(1) \<open>P w\<close> have M: "M r w1" by (auto simp: triple_def)
  show "Q (fst (await m f w)) (snd (await m f w))"
  proof (cases r)
    case (Returned x)
    with M assms(2) [of x] m show ?thesis by (simp add: await_def triple_def)
  next
    case Raised
    with M assms(3) m show ?thesis by (simp add: await_def)
  qed
qed

lemma triple_try_catch:
  assumes "triple P m M" and "triple (M Raised) h Q"
    and "\<And>x w. M (Returned x) w \<Longrightarrow> Q (Returned x) w"
  shows "triple P (try_catch m h) Q"
  unfolding triple_def
proof (intro allI impI)
  fix w assume "P w"
  obtain r w1 where m: "m w = (r, w1)" by (cases "m w")
  with assms(1) \<open>P w\<close> have M: "M r w1" by (auto simp: triple_def)
  show "Q (fst (try_catch m h w)) (snd (try_catch m h w))"
  proof (cases r)
    case (Returned x)
    with M assms(3) m show ?thesis by (simp add: try_catch_def)
  next
    case Raised
    with M assms(2) m show ?thesis by (simp add: try_catch_def triple_def)
  qed
qed

lemma triple_if:
  assumes "c \<Longrightarrow> triple P a Q" and "\<not> c \<Longrightarrow> triple P b Q"
  shows "triple P (if c then a else b) Q"
  using assms by simp

lemma triple_frame: "frame m \<Longrightarrow> triple (\<lambda>w. rides w = R) m (\<lambda>_ w. rides w = R)"
  by (simp add: triple_def frame_def)

lemma triple_accept_update:
  "triple (\<lambda>w. rides w = R) (update_ride_single (still_on_offer rideId) (accept_row driverId))
     (\<lambda>res w. case res of
         Returned (Reply u) \<Rightarrow>
           (\<exists>r. filter (still_on_offer rideId) R = [r])
           \<and> rides w = update_where (still_on_offer rideId) (accept_row driverId) R
       | _ \<Rightarrow> rides w = R)"
  unfolding triple_def
proof (intro allI impI)
  fix w :: world assume "rides w = R"
  then show "case fst (update_ride_single (still_on_offer rideId) (accept_row driverId) w) of
         Returned (Reply u) \<Rightarrow>
           (\<exists>r. filter (still_on_offer rideId) R = [r])
           \<and> rides (snd (update_ride_single (still_on_offer rideId) (accept_row driverId) w))
               = update_where (still_on_offer rideId) (accept_row driverId) R
       | _ \<Rightarrow> rides (snd (update_ride_single (still_on_offer rideId) (accept_row driverId) w)) = R"
    by (cases "next_fault w")
       (auto simp: update_ride_single_def store_call_def Let_def update_single_def update_where_def
          split: list.splits)
qed

lemma triple_accept_body:
  "triple (\<lambda>w. rides w = R)
     (await (debugQueries (d_id d))
        (\<lambda>_. if validateCompleteDriverProfile (Some d) \<noteq> None then ret False
              else if \<not> d_is_verified d then ret False
              else if (case d_user d of
                         None \<Rightarrow> True
                       | Some u \<Rightarrow> full_name u = [] \<or> phone_number u = [])
              then ret False
              else await startLocationSharing
                     (\<lambda>locationShared.
                        if \<not> locationShared then ret False
                        else await (update_ride_single (still_on_offer rideId)
                                      (accept_row (d_id d)))
                               (\<lambda>res. case res of
                                    Failed code \<Rightarrow>
                                      if code = ''PGRST116'' then ret False else ret False
                                  | Reply updatedRide \<Rightarrow>
                                      await (try_catch (updateDriverStatus busy) (ret ()))
                                        (\<lambda>_. setting
                                               (\<lambda>w. setPendingRides
                                                      (filter (\<lambda>r. ride_id r \<noteq> rideId) (pendingRides w))
                                                      (setCurrentRide (Some updatedRide) w))
                                               (ret True))))))
     (accept_post R rideId (d_id d))"
proof -
  have stay: "\<And>w b. rides w = R \<Longrightarrow> accept_post R rideId (d_id d) (Returned False) w"
    and stay_raised: "\<And>w. rides w = R \<Longrightarrow> accept_post R rideId (d_id d) Raised w"
    by (simp_all add: accept_post_def)
  have no: "triple (\<lambda>w. rides w = R) (ret False) (accept_post R rideId (d_id d))"
    by (rule triple_ret) (rule stay)
  let ?R' = "update_where (still_on_offer rideId) (accept_row (d_id d)) R"
  have suffix: "triple (\<lambda>w. rides w = ?R')
        (await (try_catch (updateDriverStatus busy) (ret ()))
           (\<lambda>_. setting
                  (\<lambda>w. setPendingRides
                         (filter (\<lambda>r. ride_id r \<noteq> rideId) (pendingRides w))
                         (setCurrentRide (Some u) w))
                  (ret True)))
        (\<lambda>res w. rides w = ?R' \<and> res = Returned True)" for u
  proof -
    have nr: "fst (try_catch (updateDriverStatus busy) (ret ()) w) \<noteq> Raised" for w
      by (cases "updateDriverStatus busy w"; cases "fst (updateDriverStatus busy w)")
         (simp_all add: try_catch_def ret_def)
    have f: "frame (try_catch (updateDriverStatus busy) (ret ()))"
      by (intro frame_try_catch frame_updateDriverStatus frame_ret)
    have "triple (\<lambda>w. rides w = ?R') (try_catch (updateDriverStatus busy) (ret ()))
            (\<lambda>r w. rides w = ?R' \<and> r \<noteq> Raised)"
      using f nr by (simp add: triple_def frame_def)
    then show ?thesis
      by (rule triple_await) (simp_all add: triple_def setting_def ret_def setter_defs)
  qed
  have after_update: "triple
        (\<lambda>w. case Returned res of
           Returned (Reply u) \<Rightarrow> (\<exists>r. filter (still_on_offer rideId) R = [r]) \<and> rides w = ?R'
         | _ \<Rightarrow> rides w = R)
        (case res of
           Failed code \<Rightarrow> if code = ''PGRST116'' then ret False else ret False
         | Reply updatedRide \<Rightarrow>
             await (try_catch (updateDriverStatus busy) (ret ()))
               (\<lambda>_. setting
                      (\<lambda>w. setPendingRides
                             (filter (\<lambda>r. ride_id r \<noteq> rideId) (pendingRides w))
                             (setCurrentRide (Some updatedRide) w))
                      (ret True)))
        (accept_post R rideId (d_id d))" for res
  proof (cases res)
    case (Reply u)
    show ?thesis
      using suffix [of u] unfolding Reply
      by (auto simp: triple_def accept_post_def)
  next
    case (Failed c)
    show ?thesis
      using no unfolding Failed by simp
  qed
  show ?thesis
    apply (rule triple_await [OF triple_frame [OF frame_debugQueries]])
     apply (intro triple_if no)
     apply (rule triple_await [OF triple_frame [OF frame_startLocationSharing]])
      apply (intro triple_if no)
      apply (rule triple_await [OF triple_accept_update])
       apply (rule after_update)
      apply (simp add: stay_raised)
     apply (rule stay_raised, assumption)
    apply (rule stay_raised, assumption)
    done
qed

lemma accept_post_Raised: "accept_post R rideId driverId Raised w = (rides w = R)"
  by (auto simp: accept_post_def)

lemma acceptRide_post:
  "fst (acceptRide rideId w) \<noteq> Raised
   \<and> accept_post (rides w) rideId (driver_ident w) (fst (acceptRide rideId w))
        (snd (acceptRide rideId w))"
proof (cases "driver w")
  case None
  then show ?thesis
    by (simp add: acceptRide_def reading_def ret_def accept_post_def)
next
  case (Some d)
  show ?thesis
  proof (cases "d_id d = [] \<or> d_user_id d = []")
    case True
    with Some show ?thesis
      by (simp add: acceptRide_def reading_def ret_def accept_post_def)
  next
    case False
    have "triple (\<lambda>v. rides v = rides w)
            (try_catch
               (await (debugQueries (d_id d))
                  (\<lambda>_. if validateCompleteDriverProfile (Some d) \<noteq> None then ret False
                        else if \<not> d_is_verified d then ret False
                        else if (case d_user d of
                                   None \<Rightarrow> True
                                 | Some u \<Rightarrow> full_name u = [] \<or> phone_number u = [])
                        then ret False
                        else await startLocationSharing
                               (\<lambda>locationShared.
                                  if \<not> locationShared then ret False
                                  else await (update_ride_single (still_on_offer rideId)
                                                (accept_row (d_id d)))
                                         (\<lambda>res. case res of
                                              Failed code \<Rightarrow>
                                                if code = ''PGRST116'' then ret False else ret False
                                            | Reply updatedRide \<Rightarrow>
                                                await (try_catch (updateDriverStatus busy) (ret ()))
                                                  (\<lambda>_. setting
                                                         (\<lambda>w. setPendingRides
                                                                (filter (\<lambda>r. ride_id r \<noteq> rideId) (pendingRides w))
                                                                (setCurrentRide (Some updatedRide) w))
                                                         (ret True))))))
               (ret False))
            (\<lambda>res v. res \<noteq> Raised \<and> accept_post (rides w) rideId (d_id d) res v)"
      by (rule triple_try_catch [OF triple_accept_body])
         (simp_all add: triple_def ret_def accept_post_Raised, simp add: accept_post_def)
    with Some False show ?thesis
      by (simp add: acceptRide_def reading_def triple_def driver_ident_def)
  qed
qed

lemma acceptRide_p1_post:
  "fst (acceptRide_p1 rideId w) \<noteq> Raised
   \<and> (rides (snd (acceptRide_p1 rideId w)) = rides w
        \<and> ((\<forall>x \<in> set (rides w). \<not> still_on_offer rideId x) \<longrightarrow>
               fst (acceptRide_p1 rideId w) = Returned False)
      \<or> (\<exists>r. filter (still_on_offer rideId) (rides w) = [r]
             \<and> rides (snd (acceptRide_p1 rideId w))
                 = update_where (still_on_offer rideId) (accept_row (driver_ident w)) (rides w)))"
proof (cases "driver_ident w = []")
  case True
  then show ?thesis
    by (simp add: acceptRide_p1_def reading_def ret_def)
next
  case False
  have none: "filter (still_on_offer rideId) (rides w) = []"
    if "\<forall>x \<in> set (rides w). \<not> still_on_offer rideId x"
    using that by (simp add: filter_empty_conv)
  show ?thesis
    using False none
    apply (cases w rule: fault_cases)
       apply (auto simp: acceptRide_p1_def action_defs setter_defs store_defs update_driver_def
        update_single_def update_where_def split: list.splits fault.splits)
    done
qed

text \<open>
  C1. \<open>acceptRide\<close> never throws, in either provider. If it changes the rows of the
  rides at all, then exactly one row had the id of the ride with status \<^verbatim>\<open>requested\<close>
  and no driver, and the change is that this row now has the driver and status
  \<^verbatim>\<open>accepted\<close>. If no row satisfies that guard (the ride was taken), no row is written
  and the call returns false.
\<close>

theorem acceptRide_conditional_update:
  "fst (acceptRide rideId w) \<noteq> Raised \<and> fst (acceptRide_p1 rideId w) \<noteq> Raised
   \<and> (rides (snd (acceptRide rideId w)) \<noteq> rides w \<longrightarrow>
        (\<exists>r. filter (\<lambda>x. ride_id x = rideId \<and> status x = requested \<and> driver_id x = None) (rides w) = [r])
        \<and> rides (snd (acceptRide rideId w))
            = map (\<lambda>x. if ride_id x = rideId \<and> status x = requested \<and> driver_id x = None
                        then x\<lparr>status := accepted, driver_id := Some (driver_ident w)\<rparr> else x)
                (rides w)
        \<and> fst (acceptRide rideId w) = Returned True)
   \<and> (rides (snd (acceptRide_p1 rideId w)) \<noteq> rides w \<longrightarrow>
        (\<exists>r. filter (\<lambda>x. ride_id x = rideId \<and> status x = requested \<and> driver_id x = None) (rides w) = [r])
        \<and> rides (snd (acceptRide_p1 rideId w))
            = map (\<lambda>x. if ride_id x = rideId \<and> status x = requested \<and> driver_id x = None
                        then x\<lparr>status := accepted, driver_id := Some (driver_ident w)\<rparr> else x)
                (rides w))
   \<and> ((\<forall>x \<in> set (rides w). \<not> (ride_id x = rideId \<and> status x = requested \<and> driver_id x = None)) \<longrightarrow>
        fst (acceptRide rideId w) = Returned False
        \<and> rides (snd (acceptRide rideId w)) = rides w
        \<and> fst (acceptRide_p1 rideId w) = Returned False
        \<and> rides (snd (acceptRide_p1 rideId w)) = rides w)"
proof -
  have g: "still_on_offer rideId = (\<lambda>x. ride_id x = rideId \<and> status x = requested \<and> driver_id x = None)"
    by (rule ext) (simp add: still_on_offer_def)
  have u: "update_where (still_on_offer rideId) (accept_row i) tbl
             = map (\<lambda>x. if ride_id x = rideId \<and> status x = requested \<and> driver_id x = None
                        then x\<lparr>status := accepted, driver_id := Some i\<rparr> else x) tbl" for i tbl
    by (simp add: update_where_def g accept_row_def)
  have none: "filter (still_on_offer rideId) (rides w) = []"
    if "\<forall>x \<in> set (rides w). \<not> (ride_id x = rideId \<and> status x = requested \<and> driver_id x = None)"
    using that by (simp add: filter_empty_conv g)
  note a = acceptRide_post [of rideId w, unfolded accept_post_def u]
  note b = acceptRide_p1_post [of rideId w, unfolded u]
  have nr: "fst (acceptRide rideId w) \<noteq> Raised \<and> fst (acceptRide_p1 rideId w) \<noteq> Raised"
    using a b by blast
  have c1: "rides (snd (acceptRide rideId w)) \<noteq> rides w \<longrightarrow>
        (\<exists>r. filter (\<lambda>x. ride_id x = rideId \<and> status x = requested \<and> driver_id x = None) (rides w) = [r])
        \<and> rides (snd (acceptRide rideId w))
            = map (\<lambda>x. if ride_id x = rideId \<and> status x = requested \<and> driver_id x = None
                        then x\<lparr>status := accepted, driver_id := Some (driver_ident w)\<rparr> else x)
                (rides w)
        \<and> fst (acceptRide rideId w) = Returned True"
    using a unfolding g by blast
  have c2: "rides (snd (acceptRide_p1 rideId w)) \<noteq> rides w \<longrightarrow>
        (\<exists>r. filter (\<lambda>x. ride_id x = rideId \<and> status x = requested \<and> driver_id x = None) (rides w) = [r])
        \<and> rides (snd (acceptRide_p1 rideId w))
            = map (\<lambda>x. if ride_id x = rideId \<and> status x = requested \<and> driver_id x = None
                        then x\<lparr>status := accepted, driver_id := Some (driver_ident w)\<rparr> else x)
                (rides w)"
    using b unfolding g by blast
  have c3: "(\<forall>x \<in> set (rides w). \<not> (ride_id x = rideId \<and> status x = requested \<and> driver_id x = None)) \<longrightarrow>
        fst (acceptRide rideId w) = Returned False
        \<and> rides (snd (acceptRide rideId w)) = rides w
        \<and> fst (acceptRide_p1 rideId w) = Returned False
        \<and> rides (snd (acceptRide_p1 rideId w)) = rides w"
  proof
    assume n: "\<forall>x \<in> set (rides w). \<not> (ride_id x = rideId \<and> status x = requested \<and> driver_id x = None)"
    then have n': "\<forall>x \<in> set (rides w). \<not> still_on_offer rideId x"
      by (simp add: g)
    from none [OF n] a nr have 1: "rides (snd (acceptRide rideId w)) = rides w"
      "fst (acceptRide rideId w) \<noteq> Returned True"
      unfolding g by auto
    from 1(2) nr have 2: "fst (acceptRide rideId w) = Returned False"
      by (cases "fst (acceptRide rideId w)") auto
    from none [OF n] b n' have 3: "rides (snd (acceptRide_p1 rideId w)) = rides w"
      "fst (acceptRide_p1 rideId w) = Returned False"
      unfolding g by auto
    from 1 2 3 show "fst (acceptRide rideId w) = Returned False
        \<and> rides (snd (acceptRide rideId w)) = rides w
        \<and> fst (acceptRide_p1 rideId w) = Returned False
        \<and> rides (snd (acceptRide_p1 rideId w)) = rides w"
      by simp
  qed
  from nr c1 c2 c3 show ?thesis by (intro conjI) blast+
qed

theorem acceptRide_conditional_update_witness:
  "rides (snd (acceptRide ''r1'' offer_world)) \<noteq> rides offer_world
   \<and> fst (acceptRide ''r1'' offer_world) = Returned True
   \<and> filter (\<lambda>x. ride_id x = ''r1'' \<and> status x = requested \<and> driver_id x = None)
         (rides example_world) = []
   \<and> fst (acceptRide ''r1'' example_world) = Returned False
   \<and> rides (snd (acceptRide ''r1'' example_world)) = rides example_world
   \<and> fst (acceptRide_p1 ''r1'' example_world) = Returned False"
proof -
  have ch: "rides (snd (acceptRide ''r1'' offer_world)) \<noteq> rides offer_world"
    by (simp add: acceptRide_def debugQueries_def startLocationSharing_def updateDriverStatus_def
        validateCompleteDriverProfile_def select_driver_single_def upsert_location_def
        update_driver_def still_on_offer_def accept_row_def action_defs setter_defs store_defs
        update_single_def driver_user_id_def driver_ident_def offer_world_def offer_ride_def
        example_world_def example_ride_def example_driver_def)
  have taken: "\<forall>x \<in> set (rides example_world).
         \<not> (ride_id x = ''r1'' \<and> status x = requested \<and> driver_id x = None)"
    by (simp add: example_world_def example_ride_def)
  note t1 = acceptRide_conditional_update [of "''r1''" offer_world]
  note t2 = acceptRide_conditional_update [of "''r1''" example_world]
  from t1 ch have a: "fst (acceptRide ''r1'' offer_world) = Returned True"
    by blast
  have none: "filter (\<lambda>x. ride_id x = ''r1'' \<and> status x = requested \<and> driver_id x = None)
         (rides example_world) = []"
    by (simp add: example_world_def example_ride_def)
  from t2 taken have b: "fst (acceptRide ''r1'' example_world) = Returned False"
    "rides (snd (acceptRide ''r1'' example_world)) = rides example_world"
    "fst (acceptRide_p1 ''r1'' example_world) = Returned False"
    by blast+
  from ch a none b show ?thesis by (intro conjI)
qed

subsection \<open>Operations that catch every exception\<close>












lemma loadAssignedRide_failed_read:
  assumes "driver_ident w \<noteq> []" and "env_url w"
    and "faults w = Fail c # fs \<or> faults w = Crash # fs"
  shows "currentRide (snd (loadAssignedRide w)) = None"
    and "currentRide (snd (loadAssignedRide_p1 w)) = currentRide w"
  using assms
  by (auto simp: loadAssignedRide_def loadAssignedRide_p1_def select_assigned_ride_def
      select_assigned_rides_p1_def action_defs setter_defs store_defs)

text \<open>
  C7. With a ride in progress on display, a store error on the read of the assigned ride
  (or an exception from it) makes \<open>loadAssignedRide\<close> of the realtime provider, and with
  it \<open>checkForNewRides\<close>, set the current ride to null. The polling provider keeps the
  ride on the same input.
\<close>

theorem loadAssignedRide_clears_current_ride_on_failure:
  "currentRide riding_world = Some (example_ride\<lparr>status := in_progress, pickup_otp := None\<rparr>)
   \<and> currentRide (snd (loadAssignedRide (riding_world\<lparr>faults := [Fail ''500'']\<rparr>))) = None
   \<and> currentRide (snd (loadAssignedRide (riding_world\<lparr>faults := [Crash]\<rparr>))) = None
   \<and> currentRide (snd (checkForNewRides (riding_world\<lparr>faults := [Fail ''500'']\<rparr>))) = None
   \<and> currentRide (snd (loadAssignedRide riding_world))
       = Some (example_ride\<lparr>status := in_progress, pickup_otp := None\<rparr>)
   \<and> currentRide (snd (loadAssignedRide_p1 (riding_world\<lparr>faults := [Fail ''500'']\<rparr>)))
       = Some (example_ride\<lparr>status := in_progress, pickup_otp := None\<rparr>)"
  by (simp add: loadAssignedRide_def loadAssignedRide_p1_def checkForNewRides_def
      loadAssignedScheduledBooking_def loadPendingRides_def select_assigned_ride_def
      select_assigned_rides_p1_def select_assigned_booking_def active_ride_of_def
      driver_ident_def driver_user_id_def action_defs setter_defs store_defs
      riding_world_def trip_world_def example_world_def example_ride_def example_driver_def)

text \<open>
  C4. The driver has declined ride \<^verbatim>\<open>r1\<close>, the decline marker is stored, and a second
  request for the ride has arrived. \<open>checkForMissedNotifications\<close>, looking back to time
  0, hands the request to \<open>processNewNotifications\<close>, which puts the ride back among the
  pending offers; \<open>loadPendingRides\<close> on the same store leaves it out.
\<close>

theorem declined_ride_offered_again:
  "decline_marker 2 ''u1'' ''r1'' \<in> set (notifications renotified_world)
   \<and> pendingRides renotified_world = []
   \<and> pendingRides (snd (checkForMissedNotifications 0 4 renotified_world)) = [offer_ride]
   \<and> pendingRides (snd (processNewNotifications [offer_notification 3] renotified_world)) = [offer_ride]
   \<and> pendingRides (snd (loadPendingRides renotified_world)) = []"
proof -
  have w: "renotified_world =
     example_world\<lparr>rides := [offer_ride],
       notifications := [(offer_notification 1)\<lparr>n_status := notification_cancelled\<rparr>,
                         decline_marker 2 ''u1'' ''r1'', offer_notification 3],
       pendingRides := []\<rparr>"
    by (simp add: renotified_world_def declineRide_def update_notifications_def
        insert_notification_def request_for_def driver_user_id_def action_defs setter_defs
        store_defs update_where_def offer_world_def offer_notification_def offer_ride_def
        example_world_def example_driver_def example_ride_def)
  show ?thesis
    unfolding w
    by (simp add: checkForMissedNotifications_def processNewNotifications_def
        loadPendingRides_def select_missed_def select_requested_rides_def
        select_unread_requests_def select_declined_def driver_user_id_def
        action_defs setter_defs store_defs offer_notification_def decline_marker_def
        offer_ride_def example_world_def example_driver_def example_ride_def)
qed







end
